theory Spec2Isabelle
  imports Complex_Main "HOL-Library.Multiset"
begin

section \<open>Values\<close>

text \<open>
  A JavaScript \<^verbatim>\<open>number\<close> that has passed \<^verbatim>\<open>z.number()\<close> is not NaN. Finite
  doubles are compared exactly, so numbers are modelled as rationals; the two infinities
  are left out. A \<^verbatim>\<open>Date\<close> is its millisecond timestamp. An \<^verbatim>\<open>ObjectId\<close> is represented by its canonical form, the
  24 lower-case hexadecimal digits that \<^verbatim>\<open>toString()\<close> prints.
\<close>

type_synonym number = rat
type_synonym date = int
type_synonym objectid = string

datatype error =
  NotInitialized  \<comment> \<open>\<^verbatim>\<open>throw new Error("Database not initialized")\<close>\<close>
| BSONError       \<comment> \<open>thrown by \<^verbatim>\<open>new ObjectId(id)\<close> on a malformed id\<close>
| DuplicateKey    \<comment> \<open>thrown by \<^verbatim>\<open>insertOne\<close> when a unique index is violated\<close>

section \<open>Entities of \<^verbatim>\<open>shared/schema.ts\<close>\<close>

text \<open>
  \<^verbatim>\<open>InsertProperty\<close> is the output type of \<^verbatim>\<open>insertPropertySchema\<close>; optional fields
  are options. \<^verbatim>\<open>type\<close> and \<^verbatim>\<open>size\<close> carry a prime because the plain names are taken.
\<close>

record InsertProperty =
  title :: string
  description :: string
  type' :: string
  price :: number
  currency :: string
  isRental :: bool
  rentalPeriod :: "string option"
  city :: string
  area :: "string option"
  neighborhood :: string
  address :: string
  bedrooms :: "number option"
  bathrooms :: "number option"
  size' :: number
  features :: "string list option"
  images :: "string list"
  status :: string
  propertyCode :: string
  latitude :: "number option"
  longitude :: "number option"

text \<open>A stored \<^verbatim>\<open>Property\<close>: the inserted fields, \<^verbatim>\<open>createdAt\<close> and the \<^verbatim>\<open>_id\<close>
  (\<open>p_id\<close>) that the store assigns.\<close>

record Property = InsertProperty +
  createdAt :: date
  p_id :: objectid

text \<open>\<^verbatim>\<open>PropertySearch\<close>, the output type of \<^verbatim>\<open>propertySearchSchema\<close>: every field is
  optional. The fields that share a name with \<^verbatim>\<open>Property\<close> are prefixed with \<open>q_\<close>.\<close>

record PropertySearch =
  q_city :: "string option"
  q_area :: "string option"
  q_neighborhood :: "string option"
  q_type :: "string option"
  minPrice :: "number option"
  maxPrice :: "number option"
  minSize :: "number option"
  maxSize :: "number option"
  q_bedrooms :: "number option"
  q_isRental :: "bool option"

definition emptySearch :: PropertySearch where
  "emptySearch = \<lparr> q_city = None, q_area = None, q_neighborhood = None, q_type = None,
     minPrice = None, maxPrice = None, minSize = None, maxSize = None,
     q_bedrooms = None, q_isRental = None \<rparr>"

text \<open>\<^verbatim>\<open>Partial<InsertProperty>\<close>, the argument of \<^verbatim>\<open>updateProperty\<close>: a key that is
  absent from the object is \<open>None\<close>, a present key carries its value (prefix \<open>u_\<close>).\<close>

record PartialInsertProperty =
  u_title :: "string option"
  u_description :: "string option"
  u_type :: "string option"
  u_price :: "number option"
  u_currency :: "string option"
  u_isRental :: "bool option"
  u_rentalPeriod :: "string option"
  u_city :: "string option"
  u_area :: "string option"
  u_neighborhood :: "string option"
  u_address :: "string option"
  u_bedrooms :: "number option"
  u_bathrooms :: "number option"
  u_size :: "number option"
  u_features :: "string list option"
  u_images :: "string list option"
  u_status :: "string option"
  u_propertyCode :: "string option"
  u_latitude :: "number option"
  u_longitude :: "number option"

text \<open>Users, contact messages and testimonials. Field names that several interfaces
  share are prefixed: \<open>usr_\<close>, \<open>c_\<close>, \<open>t_\<close>.\<close>

record InsertUser =
  username :: string
  password :: string
  usr_name :: string
  role :: string
  usr_email :: string
  usr_phone :: "string option"

record User = InsertUser +
  usr_createdAt :: date
  usr_id :: objectid

record InsertContactMessage =
  c_name :: string
  c_email :: string
  c_phone :: "string option"
  c_subject :: string
  c_message :: string

record ContactMessage = InsertContactMessage +
  c_createdAt :: date
  isRead :: bool
  c_id :: objectid

record InsertTestimonial =
  t_name :: string
  t_location :: string
  t_message :: string
  t_rating :: number

record Testimonial = InsertTestimonial +
  t_createdAt :: date
  isApproved :: bool
  t_id :: objectid

section \<open>The query document of \<^verbatim>\<open>searchProperties\<close>\<close>

text \<open>A comparison object \<^verbatim>\<open>{ $gte: a, $lte: b }\<close>, each operator optional.\<close>

record comparison =
  gte :: "number option"
  lte :: "number option"

text \<open>The object \<^verbatim>\<open>filter\<close> that the method builds: a key that was never assigned is
  \<open>None\<close>.\<close>

record query =
  f_city :: "string option"
  f_area :: "string option"
  f_neighborhood :: "string option"
  f_type :: "string option"
  f_isRental :: "bool option"
  f_price :: "comparison option"
  f_size :: "comparison option"
  f_bedrooms :: "comparison option"

definition emptyQuery :: query where
  "emptyQuery = \<lparr> f_city = None, f_area = None, f_neighborhood = None, f_type = None,
     f_isRental = None, f_price = None, f_size = None, f_bedrooms = None \<rparr>"

text \<open>JavaScript truthiness of an optional string and of an optional number:
  \<^verbatim>\<open>undefined\<close>, \<^verbatim>\<open>""\<close> and \<^verbatim>\<open>0\<close> are falsy.\<close>

fun truthy_string :: "string option \<Rightarrow> bool" where
  "truthy_string None = False"
| "truthy_string (Some s) = (s \<noteq> [])"

fun truthy_number :: "number option \<Rightarrow> bool" where
  "truthy_number None = False"
| "truthy_number (Some n) = (n \<noteq> 0)"

text \<open>The statements of \<^verbatim>\<open>searchProperties\<close> that fill \<^verbatim>\<open>filter\<close>, in source order.\<close>

definition buildFilter :: "PropertySearch \<Rightarrow> query" where
  "buildFilter search =
    (let filter0 = emptyQuery;
         filter1 = (if truthy_string (q_city search)
                    then filter0\<lparr>f_city := q_city search\<rparr> else filter0);
         filter2 = (if truthy_string (q_area search)
                    then filter1\<lparr>f_area := q_area search\<rparr> else filter1);
         filter3 = (if truthy_string (q_neighborhood search)
                    then filter2\<lparr>f_neighborhood := q_neighborhood search\<rparr> else filter2);
         filter4 = (if truthy_string (q_type search)
                    then filter3\<lparr>f_type := q_type search\<rparr> else filter3);
         filter5 = (if q_isRental search \<noteq> None
                    then filter4\<lparr>f_isRental := q_isRental search\<rparr> else filter4);
         filter6 = (if minPrice search \<noteq> None \<or> maxPrice search \<noteq> None
                    then filter5\<lparr>f_price :=
                           Some \<lparr>gte = minPrice search, lte = maxPrice search\<rparr>\<rparr>
                    else filter5);
         filter7 = (if minSize search \<noteq> None \<or> maxSize search \<noteq> None
                    then filter6\<lparr>f_size :=
                           Some \<lparr>gte = minSize search, lte = maxSize search\<rparr>\<rparr>
                    else filter6);
         filter8 = (if truthy_number (q_bedrooms search)
                    then filter7\<lparr>f_bedrooms :=
                           Some \<lparr>gte = q_bedrooms search, lte = None\<rparr>\<rparr>
                    else filter7)
     in filter8)"

section \<open>Matching a document against the query\<close>

text \<open>
  An absent key of the query constrains nothing. A plain value is an equality clause; on
  an optional field it matches only a document that has the field with that value.
\<close>

fun eq_clause :: "'a option \<Rightarrow> 'a \<Rightarrow> bool" where
  "eq_clause None v = True"
| "eq_clause (Some w) v = (v = w)"

fun eq_clause_opt :: "'a option \<Rightarrow> 'a option \<Rightarrow> bool" where
  "eq_clause_opt None v = True"
| "eq_clause_opt (Some w) v = (v = Some w)"

text \<open>
  A comparison object holds of a number when every operator in it does. An object with
  no operator at all is compared as an embedded document, which no number equals;
  \<open>buildFilter\<close> never produces one.
\<close>

definition in_range :: "comparison \<Rightarrow> number \<Rightarrow> bool" where
  "in_range r v =
    (if gte r = None \<and> lte r = None then False
     else (case gte r of None \<Rightarrow> True | Some a \<Rightarrow> a \<le> v) \<and>
          (case lte r of None \<Rightarrow> True | Some b \<Rightarrow> v \<le> b))"

fun range_clause :: "comparison option \<Rightarrow> number \<Rightarrow> bool" where
  "range_clause None v = True"
| "range_clause (Some r) v = in_range r v"

text \<open>A comparison on an optional field fails for a document that lacks the field.\<close>

fun range_clause_opt :: "comparison option \<Rightarrow> number option \<Rightarrow> bool" where
  "range_clause_opt None v = True"
| "range_clause_opt (Some r) None = False"
| "range_clause_opt (Some r) (Some v) = in_range r v"

definition matches :: "query \<Rightarrow> Property \<Rightarrow> bool" where
  "matches f p \<longleftrightarrow>
     eq_clause (f_city f) (city p) \<and>
     eq_clause_opt (f_area f) (area p) \<and>
     eq_clause (f_neighborhood f) (neighborhood p) \<and>
     eq_clause (f_type f) (type' p) \<and>
     eq_clause (f_isRental f) (isRental p) \<and>
     range_clause (f_price f) (price p) \<and>
     range_clause (f_size f) (size' p) \<and>
     range_clause_opt (f_bedrooms f) (bedrooms p)"

text \<open>\<^verbatim>\<open>.sort({ createdAt: -1 })\<close>: newest first. The store leaves the order of documents
  with equal keys open; the model keeps their stored order.\<close>

definition sortCreatedAtDesc :: "Property list \<Rightarrow> Property list" where
  "sortCreatedAtDesc ps = sort_key (\<lambda>p. - createdAt p) ps"

section \<open>The storage object\<close>

text \<open>The collection handles of \<^verbatim>\<open>MongoStorage\<close>: \<open>None\<close> while the handle is
  \<^verbatim>\<open>null\<close> (before \<^verbatim>\<open>initialize\<close>), then the documents in stored order.\<close>

record MongoStorage =
  usersCollection :: "User list option"
  propertiesCollection :: "Property list option"
  contactMessagesCollection :: "ContactMessage list option"
  testimonialsCollection :: "Testimonial list option"

definition searchProperties ::
  "PropertySearch \<Rightarrow> MongoStorage \<Rightarrow> error + Property list" where
  "searchProperties search st =
    (case propertiesCollection st of
       None \<Rightarrow> Inl NotInitialized
     | Some coll \<Rightarrow> Inr (sortCreatedAtDesc (filter (matches (buildFilter search)) coll)))"

section \<open>Identifiers\<close>

text \<open>
  \<^verbatim>\<open>new ObjectId(id)\<close> on a string, in the driver version whose
  \<^verbatim>\<open>findOneAndUpdate\<close> returns the document itself (as \<^verbatim>\<open>updateProperty\<close> expects):
  a string of exactly 24 hexadecimal digits, upper or lower case, is accepted; any other
  string throws.
\<close>

definition isHexDigit :: "char \<Rightarrow> bool" where
  "isHexDigit c \<longleftrightarrow> c \<in> set ''0123456789abcdefABCDEF''"

definition toLowerHex :: "char \<Rightarrow> char" where
  "toLowerHex c =
    (if c = CHR ''A'' then CHR ''a'' else if c = CHR ''B'' then CHR ''b''
     else if c = CHR ''C'' then CHR ''c'' else if c = CHR ''D'' then CHR ''d''
     else if c = CHR ''E'' then CHR ''e'' else if c = CHR ''F'' then CHR ''f'' else c)"

definition ObjectId_new :: "string \<Rightarrow> error + objectid" where
  "ObjectId_new s =
    (if length s = 24 \<and> list_all isHexDigit s then Inr (map toLowerHex s)
     else Inl BSONError)"

section \<open>Collection operations of the store\<close>

text \<open>
  \<^verbatim>\<open>updateOne(sel, { $set: ... })\<close> on the first document that the selector matches:
  the result is \<open>(matchedCount, modifiedCount, collection)\<close>. A matched document that
  the update leaves as it was counts as matched but not as modified.
\<close>

fun updateOne :: "('d \<Rightarrow> bool) \<Rightarrow> ('d \<Rightarrow> 'd) \<Rightarrow> 'd list \<Rightarrow> nat \<times> nat \<times> 'd list" where
  "updateOne sel upd [] = (0, 0, [])"
| "updateOne sel upd (d # ds) =
    (if sel d then (1, (if upd d = d then 0 else 1), upd d # ds)
     else (case updateOne sel upd ds of (m, n, ds') \<Rightarrow> (m, n, d # ds')))"

text \<open>
  \<^verbatim>\<open>findOneAndUpdate(sel, { $set: ... }, { returnDocument: 'after' })\<close> on a collection
  with a unique index on \<open>key\<close>: \<^verbatim>\<open>null\<close> when the selector matches nothing; a
  duplicate-key error, with nothing written, when the update would give the document a
  key that is already stored; otherwise the updated document, written in place.
\<close>

fun replaceFirst :: "('d \<Rightarrow> bool) \<Rightarrow> ('d \<Rightarrow> 'd) \<Rightarrow> 'd list \<Rightarrow> 'd list" where
  "replaceFirst sel upd [] = []"
| "replaceFirst sel upd (d # ds) =
    (if sel d then upd d # ds else d # replaceFirst sel upd ds)"

definition findOneAndUpdate ::
  "('d \<Rightarrow> bool) \<Rightarrow> ('d \<Rightarrow> 'd) \<Rightarrow> ('d \<Rightarrow> 'k) \<Rightarrow> 'd list \<Rightarrow> error + 'd option \<times> 'd list" where
  "findOneAndUpdate sel upd key coll =
    (case find sel coll of
       None \<Rightarrow> Inr (None, coll)
     | Some d \<Rightarrow>
        if key (upd d) \<noteq> key d \<and> key (upd d) \<in> set (map key coll) then Inl DuplicateKey
        else Inr (Some (upd d), replaceFirst sel upd coll))"

section \<open>Property methods\<close>

definition getProperty :: "string \<Rightarrow> MongoStorage \<Rightarrow> error + Property option" where
  "getProperty id' st =
    (case propertiesCollection st of
       None \<Rightarrow> Inl NotInitialized
     | Some coll \<Rightarrow>
        (case ObjectId_new id' of
           Inl e \<Rightarrow> Inl e
         | Inr oid \<Rightarrow> Inr (find (\<lambda>p. p_id p = oid) coll)))"

text \<open>
  \<^verbatim>\<open>createProperty\<close>: \<open>now\<close> is the value of \<^verbatim>\<open>new Date()\<close> and \<open>newId\<close> the
  \<^verbatim>\<open>insertedId\<close> that the driver generates. \<^verbatim>\<open>insertOne\<close> rejects a document whose
  \<^verbatim>\<open>_id\<close> or \<^verbatim>\<open>propertyCode\<close> is already stored (both have a unique index).
\<close>

definition createProperty ::
  "InsertProperty \<Rightarrow> date \<Rightarrow> objectid \<Rightarrow> MongoStorage \<Rightarrow> error + Property \<times> MongoStorage" where
  "createProperty insertProperty now newId st =
    (case propertiesCollection st of
       None \<Rightarrow> Inl NotInitialized
     | Some coll \<Rightarrow>
        (let property = InsertProperty.extend insertProperty (Property.fields now newId)
         in if newId \<in> set (map p_id coll) \<or>
               propertyCode insertProperty \<in> set (map propertyCode coll)
            then Inl DuplicateKey
            else Inr (property, st\<lparr>propertiesCollection := Some (coll @ [property])\<rparr>)))"

text \<open>\<^verbatim>\<open>{ $set: updateData }\<close>: every key of \<^verbatim>\<open>updateData\<close> is written with its
  value, nothing else is touched; an object with no key changes nothing.\<close>

definition applySet :: "PartialInsertProperty \<Rightarrow> Property \<Rightarrow> Property" where
  "applySet u p = p
    \<lparr> title := (case u_title u of None \<Rightarrow> title p | Some v \<Rightarrow> v),
      description := (case u_description u of None \<Rightarrow> description p | Some v \<Rightarrow> v),
      type' := (case u_type u of None \<Rightarrow> type' p | Some v \<Rightarrow> v),
      price := (case u_price u of None \<Rightarrow> price p | Some v \<Rightarrow> v),
      currency := (case u_currency u of None \<Rightarrow> currency p | Some v \<Rightarrow> v),
      isRental := (case u_isRental u of None \<Rightarrow> isRental p | Some v \<Rightarrow> v),
      rentalPeriod := (case u_rentalPeriod u of None \<Rightarrow> rentalPeriod p | Some v \<Rightarrow> Some v),
      city := (case u_city u of None \<Rightarrow> city p | Some v \<Rightarrow> v),
      area := (case u_area u of None \<Rightarrow> area p | Some v \<Rightarrow> Some v),
      neighborhood := (case u_neighborhood u of None \<Rightarrow> neighborhood p | Some v \<Rightarrow> v),
      address := (case u_address u of None \<Rightarrow> address p | Some v \<Rightarrow> v),
      bedrooms := (case u_bedrooms u of None \<Rightarrow> bedrooms p | Some v \<Rightarrow> Some v),
      bathrooms := (case u_bathrooms u of None \<Rightarrow> bathrooms p | Some v \<Rightarrow> Some v),
      size' := (case u_size u of None \<Rightarrow> size' p | Some v \<Rightarrow> v),
      features := (case u_features u of None \<Rightarrow> features p | Some v \<Rightarrow> Some v),
      images := (case u_images u of None \<Rightarrow> images p | Some v \<Rightarrow> v),
      status := (case u_status u of None \<Rightarrow> status p | Some v \<Rightarrow> v),
      propertyCode := (case u_propertyCode u of None \<Rightarrow> propertyCode p | Some v \<Rightarrow> v),
      latitude := (case u_latitude u of None \<Rightarrow> latitude p | Some v \<Rightarrow> Some v),
      longitude := (case u_longitude u of None \<Rightarrow> longitude p | Some v \<Rightarrow> Some v) \<rparr>"

text \<open>\<^verbatim>\<open>updateProperty\<close>. The property collection has a unique index on
  \<^verbatim>\<open>propertyCode\<close>, created by \<^verbatim>\<open>initialize\<close>.\<close>

definition updateProperty ::
  "string \<Rightarrow> PartialInsertProperty \<Rightarrow> MongoStorage \<Rightarrow> error + Property option \<times> MongoStorage" where
  "updateProperty id' updateData st =
    (case propertiesCollection st of
       None \<Rightarrow> Inl NotInitialized
     | Some coll \<Rightarrow>
        (case ObjectId_new id' of
           Inl e \<Rightarrow> Inl e
         | Inr oid \<Rightarrow>
            (case findOneAndUpdate (\<lambda>p. p_id p = oid) (applySet updateData) propertyCode coll of
               Inl e \<Rightarrow> Inl e
             | Inr (result, coll') \<Rightarrow> Inr (result, st\<lparr>propertiesCollection := Some coll'\<rparr>))))"

section \<open>Contact methods\<close>

definition markContactMessageAsRead ::
  "string \<Rightarrow> MongoStorage \<Rightarrow> error + bool \<times> MongoStorage" where
  "markContactMessageAsRead id' st =
    (case contactMessagesCollection st of
       None \<Rightarrow> Inl NotInitialized
     | Some coll \<Rightarrow>
        (case ObjectId_new id' of
           Inl e \<Rightarrow> Inl e
         | Inr oid \<Rightarrow>
            (case updateOne (\<lambda>m. c_id m = oid) (\<lambda>m. m\<lparr>isRead := True\<rparr>) coll of
               (matchedCount, modifiedCount, coll') \<Rightarrow>
                 Inr (modifiedCount > 0, st\<lparr>contactMessagesCollection := Some coll'\<rparr>))))"

section \<open>Testimonial methods\<close>

text \<open>\<^verbatim>\<open>createTestimonial\<close>: the spread of the argument comes first in the object
  literal, so \<^verbatim>\<open>createdAt\<close> and \<^verbatim>\<open>isApproved: false\<close> are what is stored.\<close>

definition createTestimonial ::
  "InsertTestimonial \<Rightarrow> date \<Rightarrow> objectid \<Rightarrow> MongoStorage \<Rightarrow> error + Testimonial \<times> MongoStorage" where
  "createTestimonial testimonial now newId st =
    (case testimonialsCollection st of
       None \<Rightarrow> Inl NotInitialized
     | Some coll \<Rightarrow>
        (let newTestimonial =
               InsertTestimonial.extend testimonial (Testimonial.fields now False newId)
         in if newId \<in> set (map t_id coll) then Inl DuplicateKey
            else Inr (newTestimonial,
                      st\<lparr>testimonialsCollection := Some (coll @ [newTestimonial])\<rparr>)))"

definition getApprovedTestimonials :: "MongoStorage \<Rightarrow> error + Testimonial list" where
  "getApprovedTestimonials st =
    (case testimonialsCollection st of
       None \<Rightarrow> Inl NotInitialized
     | Some coll \<Rightarrow> Inr (filter (\<lambda>t. isApproved t = True) coll))"

definition approveTestimonial ::
  "string \<Rightarrow> MongoStorage \<Rightarrow> error + bool \<times> MongoStorage" where
  "approveTestimonial id' st =
    (case testimonialsCollection st of
       None \<Rightarrow> Inl NotInitialized
     | Some coll \<Rightarrow>
        (case ObjectId_new id' of
           Inl e \<Rightarrow> Inl e
         | Inr oid \<Rightarrow>
            (case updateOne (\<lambda>t. t_id t = oid) (\<lambda>t. t\<lparr>isApproved := True\<rparr>) coll of
               (matchedCount, modifiedCount, coll') \<Rightarrow>
                 Inr (modifiedCount > 0, st\<lparr>testimonialsCollection := Some coll'\<rparr>))))"

text \<open>The two methods that write to the testimonial collection, as a sequence of calls;
  a call that throws leaves the store as it was.\<close>

datatype TestimonialCall =
  CreateTestimonial InsertTestimonial date objectid
| ApproveTestimonial string

fun testimonialCall :: "MongoStorage \<Rightarrow> TestimonialCall \<Rightarrow> MongoStorage" where
  "testimonialCall st (CreateTestimonial testimonial now newId) =
    (case createTestimonial testimonial now newId st of Inl e \<Rightarrow> st | Inr (t, st') \<Rightarrow> st')"
| "testimonialCall st (ApproveTestimonial id') =
    (case approveTestimonial id' st of Inl e \<Rightarrow> st | Inr (ok, st') \<Rightarrow> st')"

definition testimonialCalls :: "TestimonialCall list \<Rightarrow> MongoStorage \<Rightarrow> MongoStorage" where
  "testimonialCalls calls st = foldl testimonialCall st calls"

section \<open>Validation schemas\<close>

text \<open>A request body after JSON decoding. An object is its list of members in written
  order; a key written twice keeps its last value.\<close>

datatype json =
  JNull | JBool bool | JNum number | JStr string | JArr "json list"
| JObj "(string \<times> json) list"

definition lookupKey :: "(string \<times> json) list \<Rightarrow> string \<Rightarrow> json option" where
  "lookupKey kv k = map_of (rev kv) k"

text \<open>
  The issues of a \<^verbatim>\<open>ZodError\<close>, by issue code and the key they are reported for (the
  localized message texts are left out). \<^verbatim>\<open>parse\<close> throws the list of all issues, in
  the order of the keys of the schema; the handlers answer with the first.
\<close>

datatype ZodIssue = invalid_type string | too_small string | invalid_string string

type_synonym 'a parsed = "ZodIssue list + 'a"

definition issues :: "'a parsed \<Rightarrow> ZodIssue list" where
  "issues r = (case r of Inl is \<Rightarrow> is | Inr v \<Rightarrow> [])"

text \<open>\<^verbatim>\<open>z.string()\<close>, \<^verbatim>\<open>z.string().min(n)\<close>, \<^verbatim>\<open>z.string().email()\<close> (the pattern of a
  well-formed address is a parameter), \<^verbatim>\<open>z.number()\<close>, \<^verbatim>\<open>z.number().min(0)\<close>,
  \<^verbatim>\<open>z.boolean()\<close>, \<^verbatim>\<open>z.array(z.string())\<close> and \<^verbatim>\<open>z.array(z.string()).min(1)\<close>,
  applied to the value found under a key (\<open>None\<close> is \<^verbatim>\<open>undefined\<close>).\<close>

definition z_string :: "string \<Rightarrow> json option \<Rightarrow> string parsed" where
  "z_string k v = (case v of Some (JStr s) \<Rightarrow> Inr s | _ \<Rightarrow> Inl [invalid_type k])"

definition z_string_min :: "nat \<Rightarrow> string \<Rightarrow> json option \<Rightarrow> string parsed" where
  "z_string_min n k v =
    (case v of
       Some (JStr s) \<Rightarrow> if n \<le> length s then Inr s else Inl [too_small k]
     | _ \<Rightarrow> Inl [invalid_type k])"

definition z_string_email :: "(string \<Rightarrow> bool) \<Rightarrow> string \<Rightarrow> json option \<Rightarrow> string parsed" where
  "z_string_email wellFormed k v =
    (case v of
       Some (JStr s) \<Rightarrow> if wellFormed s then Inr s else Inl [invalid_string k]
     | _ \<Rightarrow> Inl [invalid_type k])"

definition z_number :: "string \<Rightarrow> json option \<Rightarrow> number parsed" where
  "z_number k v = (case v of Some (JNum x) \<Rightarrow> Inr x | _ \<Rightarrow> Inl [invalid_type k])"

definition z_number_min0 :: "string \<Rightarrow> json option \<Rightarrow> number parsed" where
  "z_number_min0 k v =
    (case v of
       Some (JNum x) \<Rightarrow> if 0 \<le> x then Inr x else Inl [too_small k]
     | _ \<Rightarrow> Inl [invalid_type k])"

definition z_boolean :: "string \<Rightarrow> json option \<Rightarrow> bool parsed" where
  "z_boolean k v = (case v of Some (JBool b) \<Rightarrow> Inr b | _ \<Rightarrow> Inl [invalid_type k])"

fun stringElements :: "string \<Rightarrow> json list \<Rightarrow> string list parsed" where
  "stringElements k [] = Inr []"
| "stringElements k (JStr s # xs) =
    (case stringElements k xs of Inl is \<Rightarrow> Inl is | Inr ss \<Rightarrow> Inr (s # ss))"
| "stringElements k (x # xs) = Inl (invalid_type k # issues (stringElements k xs))"

definition z_array_string :: "string \<Rightarrow> json option \<Rightarrow> string list parsed" where
  "z_array_string k v =
    (case v of Some (JArr xs) \<Rightarrow> stringElements k xs | _ \<Rightarrow> Inl [invalid_type k])"

definition z_array_string_min1 :: "string \<Rightarrow> json option \<Rightarrow> string list parsed" where
  "z_array_string_min1 k v =
    (case v of
       Some (JArr xs) \<Rightarrow>
         if length xs < 1 then Inl (too_small k # issues (stringElements k xs))
         else stringElements k xs
     | _ \<Rightarrow> Inl [invalid_type k])"

text \<open>\<^verbatim>\<open>.optional()\<close> lets \<^verbatim>\<open>undefined\<close> through; \<^verbatim>\<open>.default(d)\<close> replaces
  \<^verbatim>\<open>undefined\<close> by \<open>d\<close>. Any other value goes to the wrapped schema.\<close>

definition z_optional ::
  "(string \<Rightarrow> json option \<Rightarrow> 'a parsed) \<Rightarrow> string \<Rightarrow> json option \<Rightarrow> 'a option parsed" where
  "z_optional schema k v =
    (case v of
       None \<Rightarrow> Inr None
     | Some x \<Rightarrow> (case schema k v of Inl is \<Rightarrow> Inl is | Inr a \<Rightarrow> Inr (Some a)))"

definition z_default ::
  "'a \<Rightarrow> (string \<Rightarrow> json option \<Rightarrow> 'a parsed) \<Rightarrow> string \<Rightarrow> json option \<Rightarrow> 'a parsed" where
  "z_default d schema k v = (case v of None \<Rightarrow> Inr d | Some x \<Rightarrow> schema k v)"

text \<open>\<^verbatim>\<open>insertPropertySchema.parse\<close>: every key of the schema is parsed, the issues
  are collected in schema order, and the normalized object is returned when there are
  none. Keys that the schema does not name are dropped.\<close>

definition insertPropertySchema_parse :: "json \<Rightarrow> InsertProperty parsed" where
  "insertPropertySchema_parse body =
    (case body of
       JObj kv \<Rightarrow>
        (let r_title = z_string_min 1 ''title'' (lookupKey kv ''title'');
             r_description = z_string_min 1 ''description'' (lookupKey kv ''description'');
             r_type = z_string_min 1 ''type'' (lookupKey kv ''type'');
             r_price = z_number_min0 ''price'' (lookupKey kv ''price'');
             r_currency = z_default ''SAR'' z_string ''currency'' (lookupKey kv ''currency'');
             r_isRental = z_default False z_boolean ''isRental'' (lookupKey kv ''isRental'');
             r_rentalPeriod = z_optional z_string ''rentalPeriod'' (lookupKey kv ''rentalPeriod'');
             r_city = z_string_min 1 ''city'' (lookupKey kv ''city'');
             r_area = z_optional z_string ''area'' (lookupKey kv ''area'');
             r_neighborhood = z_string_min 1 ''neighborhood'' (lookupKey kv ''neighborhood'');
             r_address = z_string_min 1 ''address'' (lookupKey kv ''address'');
             r_bedrooms = z_optional z_number ''bedrooms'' (lookupKey kv ''bedrooms'');
             r_bathrooms = z_optional z_number ''bathrooms'' (lookupKey kv ''bathrooms'');
             r_size = z_number_min0 ''size'' (lookupKey kv ''size'');
             r_features = z_optional z_array_string ''features'' (lookupKey kv ''features'');
             r_images = z_array_string_min1 ''images'' (lookupKey kv ''images'');
             r_status = z_default ''available'' z_string ''status'' (lookupKey kv ''status'');
             r_propertyCode = z_string ''propertyCode'' (lookupKey kv ''propertyCode'');
             r_latitude = z_optional z_number ''latitude'' (lookupKey kv ''latitude'');
             r_longitude = z_optional z_number ''longitude'' (lookupKey kv ''longitude'');
             errors = issues r_title @ issues r_description @ issues r_type @
               issues r_price @ issues r_currency @ issues r_isRental @
               issues r_rentalPeriod @ issues r_city @ issues r_area @
               issues r_neighborhood @ issues r_address @ issues r_bedrooms @
               issues r_bathrooms @ issues r_size @ issues r_features @ issues r_images @
               issues r_status @ issues r_propertyCode @ issues r_latitude @
               issues r_longitude
         in if errors = []
            then Inr \<lparr> title = projr r_title, description = projr r_description,
                   type' = projr r_type, price = projr r_price,
                   currency = projr r_currency, isRental = projr r_isRental,
                   rentalPeriod = projr r_rentalPeriod, city = projr r_city,
                   area = projr r_area, neighborhood = projr r_neighborhood,
                   address = projr r_address, bedrooms = projr r_bedrooms,
                   bathrooms = projr r_bathrooms, size' = projr r_size,
                   features = projr r_features, images = projr r_images,
                   status = projr r_status, propertyCode = projr r_propertyCode,
                   latitude = projr r_latitude, longitude = projr r_longitude \<rparr>
            else Inl errors)
     | _ \<Rightarrow> Inl [invalid_type []])"

text \<open>\<^verbatim>\<open>insertUserSchema.parse\<close>; \<open>wellFormed\<close> is the address pattern of
  \<^verbatim>\<open>.email()\<close>.\<close>

definition insertUserSchema_parse :: "(string \<Rightarrow> bool) \<Rightarrow> json \<Rightarrow> InsertUser parsed" where
  "insertUserSchema_parse wellFormed body =
    (case body of
       JObj kv \<Rightarrow>
        (let r_username = z_string_min 3 ''username'' (lookupKey kv ''username'');
             r_password = z_string_min 6 ''password'' (lookupKey kv ''password'');
             r_name = z_string_min 1 ''name'' (lookupKey kv ''name'');
             r_role = z_default ''user'' z_string ''role'' (lookupKey kv ''role'');
             r_email = z_string_email wellFormed ''email'' (lookupKey kv ''email'');
             r_phone = z_optional z_string ''phone'' (lookupKey kv ''phone'');
             errors = issues r_username @ issues r_password @ issues r_name @
               issues r_role @ issues r_email @ issues r_phone
         in if errors = []
            then Inr \<lparr> username = projr r_username, password = projr r_password,
                   usr_name = projr r_name, role = projr r_role,
                   usr_email = projr r_email, usr_phone = projr r_phone \<rparr>
            else Inl errors)
     | _ \<Rightarrow> Inl [invalid_type []])"

section \<open>Route handlers\<close>

text \<open>The body of \<^verbatim>\<open>GET /api/properties/:id\<close>: 404 when the method returns
  \<^verbatim>\<open>undefined\<close>, 500 when it throws, 200 with the property otherwise.\<close>

definition getPropertyHandler :: "string \<Rightarrow> MongoStorage \<Rightarrow> nat" where
  "getPropertyHandler id' st =
    (case getProperty id' st of
       Inl e \<Rightarrow> 500
     | Inr None \<Rightarrow> 404
     | Inr (Some property) \<Rightarrow> 200)"

text \<open>
  The bodies of \<^verbatim>\<open>POST /api/contact/:id/read\<close> and
  \<^verbatim>\<open>POST /api/admin/testimonials/:id/approve\<close>, entered once \<^verbatim>\<open>isAdmin\<close> has let the
  request through: the HTTP status of the response and the store afterwards. Any
  exception is caught and answered with 500.
\<close>

definition contactReadHandler :: "string \<Rightarrow> MongoStorage \<Rightarrow> nat \<times> MongoStorage" where
  "contactReadHandler id' st =
    (case markContactMessageAsRead id' st of
       Inl e \<Rightarrow> (500, st)
     | Inr (success, st') \<Rightarrow> (if \<not> success then (404, st') else (200, st')))"

definition testimonialApproveHandler :: "string \<Rightarrow> MongoStorage \<Rightarrow> nat \<times> MongoStorage" where
  "testimonialApproveHandler id' st =
    (case approveTestimonial id' st of
       Inl e \<Rightarrow> (500, st)
     | Inr (success, st') \<Rightarrow> (if \<not> success then (404, st') else (200, st')))"

text \<open>
  The generated code \<^verbatim>\<open>`SA-${Math.floor(10000 + Math.random() * 90000)}`\<close>. The
  handler computes the number in double arithmetic from a random double; the model does
  not reproduce that arithmetic and takes the number that results, \<open>generated\<close>, as
  given. The template prints it in decimal.
\<close>

fun decimal :: "nat \<Rightarrow> string" where
  "decimal n =
    (if n < 10 then [''0123456789'' ! n]
     else decimal (n div 10) @ [''0123456789'' ! (n mod 10)])"

declare decimal.simps [simp del]

definition generatedCode :: "nat \<Rightarrow> string" where
  "generatedCode generated = ''SA-'' @ decimal generated"

text \<open>
  The body of \<^verbatim>\<open>POST /api/properties\<close>, entered once \<^verbatim>\<open>isAdmin\<close> has let the request
  through. A \<^verbatim>\<open>ZodError\<close> is answered with 400, any other exception with 500, a stored
  property with 201.
\<close>

definition createPropertyHandler ::
  "json \<Rightarrow> nat \<Rightarrow> date \<Rightarrow> objectid \<Rightarrow> MongoStorage \<Rightarrow> nat \<times> MongoStorage" where
  "createPropertyHandler body generated now newId st =
    (case insertPropertySchema_parse body of
       Inl errors \<Rightarrow> (400, st)
     | Inr parsed \<Rightarrow>
        (let propertyData =
               (if propertyCode parsed = [] then parsed\<lparr>propertyCode := generatedCode generated\<rparr>
                else parsed)
         in case createProperty propertyData now newId st of
              Inl e \<Rightarrow> (500, st)
            | Inr (property, st') \<Rightarrow> (201, st')))"

section \<open>Example data\<close>

text \<open>The three sample properties of \<^verbatim>\<open>seedData\<close> (texts transliterated), stored one
  after the other, and a store that holds them.\<close>

definition villa :: Property where
  "villa = \<lparr> title = ''Luxury villa with pool'', description = ''Modern villa'',
     type' = ''villa'', price = 2800000, currency = ''SAR'', isRental = False,
     rentalPeriod = None, city = ''Riyadh'', area = Some ''North Riyadh'',
     neighborhood = ''Al Malqa'', address = ''Olaya street'', bedrooms = Some 5,
     bathrooms = Some 4, size' = 450, features = Some [''pool'', ''garden''],
     images = [''villa.jpg''], status = ''available'', propertyCode = ''SA-12345'',
     latitude = None, longitude = None,
     createdAt = 1000, p_id = ''65a000000000000000000001'' \<rparr>"

definition flat :: Property where
  "flat = \<lparr> title = ''Sea view apartment'', description = ''Modern apartment'',
     type' = ''apartment'', price = 85000, currency = ''SAR'', isRental = True,
     rentalPeriod = Some ''yearly'', city = ''Jeddah'', area = Some ''North Jeddah'',
     neighborhood = ''Al Shati'', address = ''Corniche'', bedrooms = Some 3,
     bathrooms = Some 2, size' = 180, features = Some [''sea view''],
     images = [''flat.jpg''], status = ''available'', propertyCode = ''SA-12346'',
     latitude = None, longitude = None,
     createdAt = 2000, p_id = ''65a000000000000000000002'' \<rparr>"

definition land :: Property where
  "land = \<lparr> title = ''Residential land'', description = ''Investment land'',
     type' = ''land'', price = 1200000, currency = ''SAR'', isRental = False,
     rentalPeriod = None, city = ''Dammam'', area = Some ''West Dammam'',
     neighborhood = ''West Shati'', address = ''West Shati'', bedrooms = None,
     bathrooms = None, size' = 750, features = Some [''20m street''],
     images = [''land.jpg''], status = ''available'', propertyCode = ''SA-12347'',
     latitude = None, longitude = None,
     createdAt = 3000, p_id = ''65a000000000000000000003'' \<rparr>"

text \<open>An update object with no key, the empty object.\<close>

definition emptyUpdate :: PartialInsertProperty where
  "emptyUpdate = \<lparr> u_title = None, u_description = None, u_type = None, u_price = None,
     u_currency = None, u_isRental = None, u_rentalPeriod = None, u_city = None,
     u_area = None, u_neighborhood = None, u_address = None, u_bedrooms = None,
     u_bathrooms = None, u_size = None, u_features = None, u_images = None,
     u_status = None, u_propertyCode = None, u_latitude = None, u_longitude = None \<rparr>"

text \<open>A request body for a new property that names neither \<^verbatim>\<open>currency\<close>,
  \<^verbatim>\<open>isRental\<close>, \<^verbatim>\<open>status\<close> nor \<^verbatim>\<open>propertyCode\<close>; and a body for a new user that
  does not name \<^verbatim>\<open>role\<close>.\<close>

definition bodyWithoutCode :: "(string \<times> json) list" where
  "bodyWithoutCode =
    [(''title'', JStr ''Garden house''), (''description'', JStr ''Quiet street''),
     (''type'', JStr ''villa''), (''price'', JNum 950000), (''city'', JStr ''Riyadh''),
     (''neighborhood'', JStr ''Al Yasmin''), (''address'', JStr ''Street 12''),
     (''size'', JNum 300), (''images'', JArr [JStr ''house.jpg''])]"

definition userBody :: "(string \<times> json) list" where
  "userBody =
    [(''username'', JStr ''salem''), (''password'', JStr ''secret1''),
     (''name'', JStr ''Salem''), (''email'', JStr ''salem@example.com'')]"

text \<open>A contact message that has been marked as read, a testimonial that has been
  approved, and one that has not.\<close>

definition readMessage :: ContactMessage where
  "readMessage = \<lparr> c_name = ''Huda'', c_email = ''huda@example.com'', c_phone = None,
     c_subject = ''Villa'', c_message = ''Is it still available?'',
     c_createdAt = 4000, isRead = True, c_id = ''65b000000000000000000001'' \<rparr>"

definition approvedTestimonial :: Testimonial where
  "approvedTestimonial = \<lparr> t_name = ''Mohammed'', t_location = ''Riyadh'',
     t_message = ''Excellent service'', t_rating = 5,
     t_createdAt = 5000, isApproved = True, t_id = ''65c000000000000000000001'' \<rparr>"

definition newTestimonial :: InsertTestimonial where
  "newTestimonial = \<lparr> t_name = ''Sara'', t_location = ''Jeddah'',
     t_message = ''Valuable advice'', t_rating = 4 \<rparr>"

definition seededStore :: MongoStorage where
  "seededStore = \<lparr> usersCollection = Some [],
     propertiesCollection = Some [villa, flat, land],
     contactMessagesCollection = Some [readMessage],
     testimonialsCollection = Some [approvedTestimonial] \<rparr>"

section \<open>Properties of the search\<close>

subsection \<open>The query that is built, key by key\<close>

lemma buildFilter_fields:
  "f_city (buildFilter s) = (if truthy_string (q_city s) then q_city s else None)"
  "f_area (buildFilter s) = (if truthy_string (q_area s) then q_area s else None)"
  "f_neighborhood (buildFilter s) =
     (if truthy_string (q_neighborhood s) then q_neighborhood s else None)"
  "f_type (buildFilter s) = (if truthy_string (q_type s) then q_type s else None)"
  "f_isRental (buildFilter s) = q_isRental s"
  "f_price (buildFilter s) =
     (if minPrice s \<noteq> None \<or> maxPrice s \<noteq> None
      then Some \<lparr>gte = minPrice s, lte = maxPrice s\<rparr> else None)"
  "f_size (buildFilter s) =
     (if minSize s \<noteq> None \<or> maxSize s \<noteq> None
      then Some \<lparr>gte = minSize s, lte = maxSize s\<rparr> else None)"
  "f_bedrooms (buildFilter s) =
     (if truthy_number (q_bedrooms s) then Some \<lparr>gte = q_bedrooms s, lte = None\<rparr> else None)"
  by (simp_all add: buildFilter_def Let_def emptyQuery_def)

lemma price_clause:
  "range_clause (f_price (buildFilter (s\<lparr>minPrice := lo, maxPrice := hi\<rparr>))) v \<longleftrightarrow>
     (case lo of None \<Rightarrow> True | Some x \<Rightarrow> x \<le> v) \<and>
     (case hi of None \<Rightarrow> True | Some y \<Rightarrow> v \<le> y)"
  by (cases lo; cases hi) (simp_all add: buildFilter_fields in_range_def)

lemma bedrooms_clause:
  "n \<noteq> 0 \<Longrightarrow>
   range_clause_opt (f_bedrooms (buildFilter (s\<lparr>q_bedrooms := Some n\<rparr>))) b \<longleftrightarrow>
     (case b of None \<Rightarrow> False | Some k \<Rightarrow> n \<le> k)"
  by (cases b) (simp_all add: buildFilter_fields in_range_def)

lemma matches_price_split:
  "matches (buildFilter (s\<lparr>minPrice := lo, maxPrice := hi\<rparr>)) p \<longleftrightarrow>
     matches (buildFilter (s\<lparr>minPrice := None, maxPrice := None\<rparr>)) p \<and>
     (case lo of None \<Rightarrow> True | Some x \<Rightarrow> x \<le> price p) \<and>
     (case hi of None \<Rightarrow> True | Some y \<Rightarrow> price p \<le> y)"
  unfolding matches_def price_clause
  by (simp add: buildFilter_fields) blast

lemma matches_bedrooms_split:
  "n \<noteq> 0 \<Longrightarrow>
   matches (buildFilter (s\<lparr>q_bedrooms := Some n\<rparr>)) p \<longleftrightarrow>
     matches (buildFilter (s\<lparr>q_bedrooms := None\<rparr>)) p \<and>
     (case bedrooms p of None \<Rightarrow> False | Some k \<Rightarrow> n \<le> k)"
  unfolding matches_def
  by (simp add: bedrooms_clause) (simp add: buildFilter_fields)

lemma matches_emptySearch: "matches (buildFilter emptySearch) p"
  by (simp add: matches_def buildFilter_fields emptySearch_def)

lemma sorted_sortCreatedAtDesc:
  "sorted_wrt (\<lambda>a b. createdAt b \<le> createdAt a) (sortCreatedAtDesc ps)"
proof -
  have "sorted (map (\<lambda>p. - createdAt p) (sortCreatedAtDesc ps))"
    unfolding sortCreatedAtDesc_def by (rule sorted_sort_key)
  then show ?thesis
    by (simp add: sorted_map)
qed

lemma filter_sortCreatedAtDesc:
  "filter P (sortCreatedAtDesc ps) = sortCreatedAtDesc (filter P ps)"
  unfolding sortCreatedAtDesc_def by (rule filter_sort)

lemma mset_sortCreatedAtDesc: "mset (sortCreatedAtDesc ps) = mset ps"
  unfolding sortCreatedAtDesc_def by simp

lemma searchProperties_initialized:
  "propertiesCollection st = Some coll \<Longrightarrow>
   searchProperties search st = Inr (sortCreatedAtDesc (filter (matches (buildFilter search)) coll))"
  by (simp add: searchProperties_def)

subsection \<open>Price bounds\<close>

text \<open>
  Claim C1. On an initialized store, a search with \<^verbatim>\<open>minPrice\<close> \<open>lo\<close> and
  \<^verbatim>\<open>maxPrice\<close> \<open>hi\<close>, each present or absent, returns exactly those results of the same
  search without price bounds whose price satisfies every bound that is present, in the
  same order. When the price bounds are the only fields of the search, these are exactly
  the stored properties whose price satisfies the present bounds; with both bounds absent
  the price is unconstrained.
\<close>

theorem searchProperties_price_bounds:
  assumes "propertiesCollection st = Some coll"
  shows "\<exists>r r0 r1.
    searchProperties (search\<lparr>minPrice := lo, maxPrice := hi\<rparr>) st = Inr r \<and>
    searchProperties (search\<lparr>minPrice := None, maxPrice := None\<rparr>) st = Inr r0 \<and>
    r = filter (\<lambda>p. (case lo of None \<Rightarrow> True | Some x \<Rightarrow> x \<le> price p) \<and>
                     (case hi of None \<Rightarrow> True | Some y \<Rightarrow> price p \<le> y)) r0 \<and>
    searchProperties (emptySearch\<lparr>minPrice := lo, maxPrice := hi\<rparr>) st = Inr r1 \<and>
    mset r1 = filter_mset (\<lambda>p. (case lo of None \<Rightarrow> True | Some x \<Rightarrow> x \<le> price p) \<and>
                     (case hi of None \<Rightarrow> True | Some y \<Rightarrow> price p \<le> y)) (mset coll)"
proof -
  let ?P = "\<lambda>p. (case lo of None \<Rightarrow> True | Some x \<Rightarrow> x \<le> price p) \<and>
                 (case hi of None \<Rightarrow> True | Some y \<Rightarrow> price p \<le> y)"
  have split: "filter (matches (buildFilter (s\<lparr>minPrice := lo, maxPrice := hi\<rparr>))) coll =
      filter ?P (filter (matches (buildFilter (s\<lparr>minPrice := None, maxPrice := None\<rparr>))) coll)"
    for s
    unfolding filter_filter
    by (rule filter_cong [OF refl]) (use matches_price_split [where s = s and lo = lo and hi = hi] in blast)
  have none: "emptySearch\<lparr>minPrice := None, maxPrice := None\<rparr> = emptySearch"
    by (simp add: emptySearch_def)
  have all: "filter (matches (buildFilter emptySearch)) coll = coll"
    by (simp add: matches_emptySearch)
  have "mset (sortCreatedAtDesc
          (filter (matches (buildFilter (emptySearch\<lparr>minPrice := lo, maxPrice := hi\<rparr>))) coll)) =
        filter_mset ?P (mset coll)"
    unfolding split none all mset_sortCreatedAtDesc by simp
  moreover have "sortCreatedAtDesc
          (filter (matches (buildFilter (search\<lparr>minPrice := lo, maxPrice := hi\<rparr>))) coll) =
        filter ?P (sortCreatedAtDesc
          (filter (matches (buildFilter (search\<lparr>minPrice := None, maxPrice := None\<rparr>))) coll))"
    unfolding split filter_sortCreatedAtDesc ..
  ultimately show ?thesis
    unfolding searchProperties_initialized [OF assms] by blast
qed

text \<open>On the seeded store, a lower bound of one million alone returns the villa and the
  land, not the apartment.\<close>

theorem searchProperties_price_bounds_witness:
  "propertiesCollection seededStore = Some [villa, flat, land] \<and>
   (\<exists>r. searchProperties (emptySearch\<lparr>minPrice := Some 1000000, maxPrice := None\<rparr>)
          seededStore = Inr r \<and> mset r = {#villa, land#})"
proof -
  have h: "propertiesCollection seededStore = Some [villa, flat, land]"
    by (simp add: seededStore_def)
  obtain r1 where
    a: "searchProperties (emptySearch\<lparr>minPrice := Some 1000000, maxPrice := None\<rparr>)
          seededStore = Inr r1" and
    b: "mset r1 =
          filter_mset (\<lambda>p. (case Some 1000000 of None \<Rightarrow> True | Some x \<Rightarrow> x \<le> price p) \<and>
                     (case None :: number option of None \<Rightarrow> True | Some y \<Rightarrow> price p \<le> y))
            (mset [villa, flat, land])"
    using searchProperties_price_bounds
      [OF h, where search = emptySearch and lo = "Some 1000000" and hi = None]
    by blast
  have "filter_mset (\<lambda>p. (case Some 1000000 of None \<Rightarrow> True | Some x \<Rightarrow> x \<le> price p) \<and>
                     (case None :: number option of None \<Rightarrow> True | Some y \<Rightarrow> price p \<le> y))
            (mset [villa, flat, land]) = {#villa, land#}"
    by (simp add: villa_def flat_def land_def)
  with b have "mset r1 = {#villa, land#}" by (simp only:)
  with a h show ?thesis by blast
qed

subsection \<open>No filter, and the order of every result\<close>

text \<open>
  Claim C2. On an initialized store, the search with no field present returns every
  stored property, and the result of every search is ordered by \<^verbatim>\<open>createdAt\<close>
  descending, newest first.
\<close>

theorem searchProperties_all_newest_first:
  assumes "propertiesCollection st = Some coll"
  shows "\<exists>r0 r.
    searchProperties emptySearch st = Inr r0 \<and> mset r0 = mset coll \<and>
    searchProperties search st = Inr r \<and>
    sorted_wrt (\<lambda>a b. createdAt b \<le> createdAt a) r"
  unfolding searchProperties_initialized [OF assms]
  by (simp add: matches_emptySearch mset_sortCreatedAtDesc sorted_sortCreatedAtDesc)

theorem searchProperties_all_newest_first_witness:
  "propertiesCollection seededStore = Some [villa, flat, land] \<and>
   (\<exists>r0 r. searchProperties emptySearch seededStore = Inr r0 \<and>
      mset r0 = mset [villa, flat, land] \<and>
      searchProperties (emptySearch\<lparr>q_isRental := Some False\<rparr>) seededStore = Inr r \<and>
      sorted_wrt (\<lambda>a b. createdAt b \<le> createdAt a) r)"
proof -
  have h: "propertiesCollection seededStore = Some [villa, flat, land]"
    by (simp add: seededStore_def)
  show ?thesis
    using h searchProperties_all_newest_first
      [OF h, where search = "emptySearch\<lparr>q_isRental := Some False\<rparr>"]
    by blast
qed

subsection \<open>Bedrooms\<close>

text \<open>
  Claim C3, as stated, fails for \<^verbatim>\<open>bedrooms = 0\<close>: the guard \<^verbatim>\<open>if (search.bedrooms)\<close>
  is false for 0, no clause is added, and the land, which has no \<^verbatim>\<open>bedrooms\<close> value,
  is returned.
\<close>

theorem searchProperties_bedrooms_zero_counterexample:
  "searchProperties (emptySearch\<lparr>q_bedrooms := Some 0\<rparr>) seededStore = Inr [land, flat, villa] \<and>
   bedrooms land = None"
  by (simp add: searchProperties_def seededStore_def matches_def buildFilter_fields
        emptySearch_def sortCreatedAtDesc_def villa_def flat_def land_def)

text \<open>
  Claim C3, amended. On an initialized store, a search with \<^verbatim>\<open>bedrooms = n\<close> for a
  non-zero \<open>n\<close> returns exactly those results of the same search without
  \<^verbatim>\<open>bedrooms\<close> that have a \<^verbatim>\<open>bedrooms\<close> value of at least \<open>n\<close>, in the same order;
  when \<^verbatim>\<open>bedrooms\<close> is the only field of the search, these are exactly the stored
  properties with a \<^verbatim>\<open>bedrooms\<close> value of at least \<open>n\<close>, those with more bedrooms
  included.
\<close>

theorem searchProperties_bedrooms_at_least:
  assumes "propertiesCollection st = Some coll" and "n \<noteq> 0"
  shows "\<exists>r r0 r1.
    searchProperties (search\<lparr>q_bedrooms := Some n\<rparr>) st = Inr r \<and>
    searchProperties (search\<lparr>q_bedrooms := None\<rparr>) st = Inr r0 \<and>
    r = filter (\<lambda>p. case bedrooms p of None \<Rightarrow> False | Some k \<Rightarrow> n \<le> k) r0 \<and>
    searchProperties (emptySearch\<lparr>q_bedrooms := Some n\<rparr>) st = Inr r1 \<and>
    mset r1 = filter_mset (\<lambda>p. case bedrooms p of None \<Rightarrow> False | Some k \<Rightarrow> n \<le> k) (mset coll)"
proof -
  let ?P = "\<lambda>p. case bedrooms p of None \<Rightarrow> False | Some k \<Rightarrow> n \<le> k"
  have split: "filter (matches (buildFilter (s\<lparr>q_bedrooms := Some n\<rparr>))) coll =
      filter ?P (filter (matches (buildFilter (s\<lparr>q_bedrooms := None\<rparr>))) coll)" for s
    unfolding filter_filter
    by (rule filter_cong [OF refl]) (use matches_bedrooms_split [OF assms(2), where s = s] in blast)
  have none: "emptySearch\<lparr>q_bedrooms := None\<rparr> = emptySearch"
    by (simp add: emptySearch_def)
  have all: "filter (matches (buildFilter emptySearch)) coll = coll"
    by (simp add: matches_emptySearch)
  have "mset (sortCreatedAtDesc
          (filter (matches (buildFilter (emptySearch\<lparr>q_bedrooms := Some n\<rparr>))) coll)) =
        filter_mset ?P (mset coll)"
    unfolding split none all mset_sortCreatedAtDesc by simp
  moreover have "sortCreatedAtDesc
          (filter (matches (buildFilter (search\<lparr>q_bedrooms := Some n\<rparr>))) coll) =
        filter ?P (sortCreatedAtDesc
          (filter (matches (buildFilter (search\<lparr>q_bedrooms := None\<rparr>))) coll))"
    unfolding split filter_sortCreatedAtDesc ..
  ultimately show ?thesis
    unfolding searchProperties_initialized [OF assms(1)] by blast
qed

text \<open>Asking for four bedrooms on the seeded store finds the villa, which has five.\<close>

theorem searchProperties_bedrooms_at_least_witness:
  "propertiesCollection seededStore = Some [villa, flat, land] \<and> (4 :: number) \<noteq> 0 \<and>
   (\<exists>r. searchProperties (emptySearch\<lparr>q_bedrooms := Some 4\<rparr>) seededStore = Inr r \<and>
        mset r = {#villa#})"
proof -
  have h: "propertiesCollection seededStore = Some [villa, flat, land]"
    by (simp add: seededStore_def)
  have n: "(4 :: number) \<noteq> 0" by simp
  obtain r1 where
    a: "searchProperties (emptySearch\<lparr>q_bedrooms := Some 4\<rparr>) seededStore = Inr r1" and
    b: "mset r1 =
          filter_mset (\<lambda>p. case bedrooms p of None \<Rightarrow> False | Some k \<Rightarrow> 4 \<le> k)
            (mset [villa, flat, land])"
    using searchProperties_bedrooms_at_least [OF h n, where search = emptySearch]
    by blast
  have "filter_mset (\<lambda>p. case bedrooms p of None \<Rightarrow> False | Some k \<Rightarrow> 4 \<le> k)
            (mset [villa, flat, land]) = {#villa#}"
    by (simp add: villa_def flat_def land_def)
  with b have "mset r1 = {#villa#}" by (simp only:)
  with a h n show ?thesis by blast
qed

subsection \<open>Falsy filter values\<close>

text \<open>
  Claim C10. A search in which \<^verbatim>\<open>bedrooms\<close> is 0, or \<^verbatim>\<open>city\<close>, \<^verbatim>\<open>area\<close>,
  \<^verbatim>\<open>neighborhood\<close> or \<^verbatim>\<open>type\<close> is the empty string, behaves exactly as the search
  in which that field is omitted: the value imposes no constraint.
\<close>

theorem searchProperties_falsy_is_absent:
  "searchProperties (search\<lparr>q_bedrooms := Some 0\<rparr>) st =
     searchProperties (search\<lparr>q_bedrooms := None\<rparr>) st \<and>
   searchProperties (search\<lparr>q_city := Some ''''\<rparr>) st =
     searchProperties (search\<lparr>q_city := None\<rparr>) st \<and>
   searchProperties (search\<lparr>q_area := Some ''''\<rparr>) st =
     searchProperties (search\<lparr>q_area := None\<rparr>) st \<and>
   searchProperties (search\<lparr>q_neighborhood := Some ''''\<rparr>) st =
     searchProperties (search\<lparr>q_neighborhood := None\<rparr>) st \<and>
   searchProperties (search\<lparr>q_type := Some ''''\<rparr>) st =
     searchProperties (search\<lparr>q_type := None\<rparr>) st"
proof -
  have b0: "buildFilter (search\<lparr>q_bedrooms := Some 0\<rparr>) = buildFilter (search\<lparr>q_bedrooms := None\<rparr>)"
    by (rule query.equality) (simp_all add: buildFilter_fields)
  have b1: "buildFilter (search\<lparr>q_city := Some []\<rparr>) = buildFilter (search\<lparr>q_city := None\<rparr>)"
    by (rule query.equality) (simp_all add: buildFilter_fields)
  have b2: "buildFilter (search\<lparr>q_area := Some []\<rparr>) = buildFilter (search\<lparr>q_area := None\<rparr>)"
    by (rule query.equality) (simp_all add: buildFilter_fields)
  have b3: "buildFilter (search\<lparr>q_neighborhood := Some []\<rparr>) =
      buildFilter (search\<lparr>q_neighborhood := None\<rparr>)"
    by (rule query.equality) (simp_all add: buildFilter_fields)
  have b4: "buildFilter (search\<lparr>q_type := Some []\<rparr>) = buildFilter (search\<lparr>q_type := None\<rparr>)"
    by (rule query.equality) (simp_all add: buildFilter_fields)
  show ?thesis unfolding searchProperties_def b0 b1 b2 b3 b4 by simp
qed

text \<open>With \<^verbatim>\<open>bedrooms = 0\<close> the seeded store returns all three properties, as it does
  with no field at all.\<close>

theorem searchProperties_falsy_is_absent_witness:
  "searchProperties (emptySearch\<lparr>q_bedrooms := Some 0\<rparr>) seededStore =
     searchProperties (emptySearch\<lparr>q_bedrooms := None\<rparr>) seededStore \<and>
   searchProperties (emptySearch\<lparr>q_bedrooms := None\<rparr>) seededStore = Inr [land, flat, villa]"
proof -
  have "searchProperties (emptySearch\<lparr>q_bedrooms := None\<rparr>) seededStore = Inr [land, flat, villa]"
    by (simp add: searchProperties_def seededStore_def matches_def buildFilter_fields
          emptySearch_def sortCreatedAtDesc_def villa_def flat_def land_def)
  with searchProperties_falsy_is_absent [where search = emptySearch and st = seededStore]
  show ?thesis by blast
qed

section \<open>Reading a property by id\<close>

lemma ObjectId_new_iff:
  "ObjectId_new s = Inr oid \<longleftrightarrow> length s = 24 \<and> list_all isHexDigit s \<and> oid = map toLowerHex s"
  "ObjectId_new s = Inl e \<longleftrightarrow> \<not> (length s = 24 \<and> list_all isHexDigit s) \<and> e = BSONError"
  by (auto simp: ObjectId_new_def)

lemma find_None_if_id_absent:
  "oid \<notin> set (map ident coll) \<Longrightarrow> find (\<lambda>d. ident d = oid) coll = None"
  by (auto simp: find_None_iff)

text \<open>
  Claim C4, as stated, fails for a syntactically invalid id: \<^verbatim>\<open>new ObjectId(id)\<close> throws
  before the store is queried, \<^verbatim>\<open>getProperty\<close> fails with that error instead of
  returning \<^verbatim>\<open>undefined\<close>, and the route answers 500.
\<close>

theorem getProperty_counterexample:
  "getProperty ''not-an-id'' seededStore = Inl BSONError \<and>
   getPropertyHandler ''not-an-id'' seededStore = 500"
  by (simp add: getProperty_def getPropertyHandler_def seededStore_def ObjectId_new_def)

text \<open>
  Claim C4, amended. On an initialized store, \<^verbatim>\<open>getProperty\<close> returns \<^verbatim>\<open>undefined\<close>,
  not an error, when the id is a well-formed identifier (24 hexadecimal digits) that no
  stored property has, and the route answers 404; when the id is not well-formed the call
  fails with the error of the identifier constructor and the route answers 500. The
  caller can tell the two cases apart.
\<close>

theorem getProperty_absent_or_malformed:
  assumes "propertiesCollection st = Some coll"
  shows "(length id' = 24 \<and> list_all isHexDigit id' \<and>
            map toLowerHex id' \<notin> set (map p_id coll) \<longrightarrow>
          getProperty id' st = Inr None \<and> getPropertyHandler id' st = 404) \<and>
         (\<not> (length id' = 24 \<and> list_all isHexDigit id') \<longrightarrow>
          getProperty id' st = Inl BSONError \<and> getPropertyHandler id' st = 500)"
proof (intro conjI impI)
  assume ok: "length id' = 24 \<and> list_all isHexDigit id' \<and>
            map toLowerHex id' \<notin> set (map p_id coll)"
  then have "ObjectId_new id' = Inr (map toLowerHex id')"
    by (simp add: ObjectId_new_def)
  moreover from ok have "find (\<lambda>p. p_id p = map toLowerHex id') coll = None"
    by (intro find_None_if_id_absent) simp
  ultimately show g: "getProperty id' st = Inr None"
    using assms by (simp add: getProperty_def)
  then show "getPropertyHandler id' st = 404"
    by (simp add: getPropertyHandler_def)
next
  assume "\<not> (length id' = 24 \<and> list_all isHexDigit id')"
  then have "ObjectId_new id' = Inl BSONError"
    by (simp add: ObjectId_new_def)
  then show g: "getProperty id' st = Inl BSONError"
    using assms by (simp add: getProperty_def)
  then show "getPropertyHandler id' st = 500"
    by (simp add: getPropertyHandler_def)
qed

text \<open>An identifier in upper-case digits that the seeded store does not hold, and a
  string that is no identifier.\<close>

theorem getProperty_absent_or_malformed_witness:
  "propertiesCollection seededStore = Some [villa, flat, land] \<and>
   getProperty ''65A0000000000000000000FF'' seededStore = Inr None \<and>
   getPropertyHandler ''65A0000000000000000000FF'' seededStore = 404 \<and>
   getProperty ''not-an-id'' seededStore = Inl BSONError \<and>
   getPropertyHandler ''not-an-id'' seededStore = 500"
proof -
  have h: "propertiesCollection seededStore = Some [villa, flat, land]"
    by (simp add: seededStore_def)
  have a: "length ''65A0000000000000000000FF'' = 24 \<and>
           list_all isHexDigit ''65A0000000000000000000FF'' \<and>
           map toLowerHex ''65A0000000000000000000FF'' \<notin> set (map p_id [villa, flat, land])"
    by (simp add: isHexDigit_def toLowerHex_def villa_def flat_def land_def)
  have b: "\<not> (length ''not-an-id'' = 24 \<and> list_all isHexDigit ''not-an-id'')"
    by simp
  from getProperty_absent_or_malformed [OF h, of "''65A0000000000000000000FF''"] a
       getProperty_absent_or_malformed [OF h, of "''not-an-id''"] b h
  show ?thesis by blast
qed

section \<open>Setting a flag that is already set\<close>

lemma updateOne_find_None:
  "find sel coll = None \<Longrightarrow> updateOne sel upd coll = (0, 0, coll)"
  by (induction coll) (auto split: if_splits)

lemma updateOne_find_Some:
  "find sel coll = Some d \<Longrightarrow>
   updateOne sel upd coll = (1, (if upd d = d then 0 else 1), replaceFirst sel upd coll)"
  by (induction coll) (auto split: if_splits)

lemma replaceFirst_fixed:
  "find sel coll = Some d \<Longrightarrow> upd d = d \<Longrightarrow> replaceFirst sel upd coll = coll"
  by (induction coll) (auto split: if_splits)

lemma replaceFirst_changed:
  "find sel coll = Some d \<Longrightarrow> upd d \<noteq> d \<Longrightarrow> replaceFirst sel upd coll \<noteq> coll"
  by (induction coll) (auto split: if_splits)

lemma markContactMessageAsRead_already_read:
  assumes "contactMessagesCollection st = Some coll" and "ObjectId_new id' = Inr oid"
    and "find (\<lambda>m. c_id m = oid) coll = Some m" and "isRead m"
  shows "markContactMessageAsRead id' st = Inr (False, st)"
proof -
  have "m\<lparr>isRead := True\<rparr> = m" using assms(4) by simp
  then have "updateOne (\<lambda>m. c_id m = oid) (\<lambda>m. m\<lparr>isRead := True\<rparr>) coll = (1, 0, coll)"
    using updateOne_find_Some [OF assms(3), of "\<lambda>m. m\<lparr>isRead := True\<rparr>"]
      replaceFirst_fixed [OF assms(3), of "\<lambda>m. m\<lparr>isRead := True\<rparr>"] by simp
  moreover have "st\<lparr>contactMessagesCollection := Some coll\<rparr> = st"
    using assms(1) by simp
  ultimately show ?thesis
    using assms(1,2) by (simp add: markContactMessageAsRead_def)
qed

lemma approveTestimonial_already_approved:
  assumes "testimonialsCollection st = Some coll" and "ObjectId_new id' = Inr oid"
    and "find (\<lambda>t. t_id t = oid) coll = Some t" and "isApproved t"
  shows "approveTestimonial id' st = Inr (False, st)"
proof -
  have "t\<lparr>isApproved := True\<rparr> = t" using assms(4) by simp
  then have "updateOne (\<lambda>t. t_id t = oid) (\<lambda>t. t\<lparr>isApproved := True\<rparr>) coll = (1, 0, coll)"
    using updateOne_find_Some [OF assms(3), of "\<lambda>t. t\<lparr>isApproved := True\<rparr>"]
      replaceFirst_fixed [OF assms(3), of "\<lambda>t. t\<lparr>isApproved := True\<rparr>"] by simp
  moreover have "st\<lparr>testimonialsCollection := Some coll\<rparr> = st"
    using assms(1) by simp
  ultimately show ?thesis
    using assms(1,2) by (simp add: approveTestimonial_def)
qed

lemma updateOne_modified_iff:
  "updateOne sel upd coll = (m, n, coll') \<Longrightarrow> 0 < n \<longleftrightarrow> coll' \<noteq> coll"
  by (induction coll arbitrary: m n coll') (auto split: if_splits prod.splits)

lemma markContactMessageAsRead_true_iff:
  assumes "markContactMessageAsRead id' st = Inr (ok, st')"
  shows "ok \<longleftrightarrow> contactMessagesCollection st' \<noteq> contactMessagesCollection st"
  using assms
  by (auto simp: markContactMessageAsRead_def split: option.splits sum.splits prod.splits
      dest: updateOne_modified_iff)

lemma approveTestimonial_true_iff:
  assumes "approveTestimonial id' st = Inr (ok, st')"
  shows "ok \<longleftrightarrow> testimonialsCollection st' \<noteq> testimonialsCollection st"
  using assms
  by (auto simp: approveTestimonial_def split: option.splits sum.splits prod.splits
      dest: updateOne_modified_iff)

text \<open>
  Claim C9. \<^verbatim>\<open>markContactMessageAsRead\<close> and \<^verbatim>\<open>approveTestimonial\<close> return
  \<^verbatim>\<open>true\<close> exactly when the call changed the stored collection. Called on an existing
  document whose flag is already set, they return \<^verbatim>\<open>false\<close> and leave the store as it
  was, and the routes answer 404 although the document exists.
\<close>

theorem repeated_flag_update_reports_404:
  "(markContactMessageAsRead id' st = Inr (ok, st') \<longrightarrow>
      (ok \<longleftrightarrow> contactMessagesCollection st' \<noteq> contactMessagesCollection st)) \<and>
   (approveTestimonial id' st = Inr (ok, st') \<longrightarrow>
      (ok \<longleftrightarrow> testimonialsCollection st' \<noteq> testimonialsCollection st)) \<and>
   (contactMessagesCollection st = Some msgs \<and> ObjectId_new id' = Inr oid \<and>
    find (\<lambda>m. c_id m = oid) msgs = Some m \<and> isRead m \<longrightarrow>
      markContactMessageAsRead id' st = Inr (False, st) \<and>
      contactReadHandler id' st = (404, st)) \<and>
   (testimonialsCollection st = Some ts \<and> ObjectId_new id' = Inr oid \<and>
    find (\<lambda>t. t_id t = oid) ts = Some t \<and> isApproved t \<longrightarrow>
      approveTestimonial id' st = Inr (False, st) \<and>
      testimonialApproveHandler id' st = (404, st))"
  using markContactMessageAsRead_true_iff [of id' st ok st']
    approveTestimonial_true_iff [of id' st ok st']
    markContactMessageAsRead_already_read [of st msgs id' oid m]
    approveTestimonial_already_approved [of st ts id' oid t]
  by (simp add: contactReadHandler_def testimonialApproveHandler_def)

text \<open>Marking the read message of the seeded store once more, and approving its approved
  testimonial once more.\<close>

theorem repeated_flag_update_reports_404_witness:
  "contactMessagesCollection seededStore = Some [readMessage] \<and>
   ObjectId_new ''65b000000000000000000001'' = Inr ''65b000000000000000000001'' \<and>
   find (\<lambda>m. c_id m = ''65b000000000000000000001'') [readMessage] = Some readMessage \<and>
   isRead readMessage \<and>
   markContactMessageAsRead ''65b000000000000000000001'' seededStore = Inr (False, seededStore) \<and>
   contactReadHandler ''65b000000000000000000001'' seededStore = (404, seededStore) \<and>
   testimonialsCollection seededStore = Some [approvedTestimonial] \<and>
   ObjectId_new ''65c000000000000000000001'' = Inr ''65c000000000000000000001'' \<and>
   find (\<lambda>t. t_id t = ''65c000000000000000000001'') [approvedTestimonial]
     = Some approvedTestimonial \<and>
   isApproved approvedTestimonial \<and>
   approveTestimonial ''65c000000000000000000001'' seededStore = Inr (False, seededStore) \<and>
   testimonialApproveHandler ''65c000000000000000000001'' seededStore = (404, seededStore)"
proof -
  have c: "contactMessagesCollection seededStore = Some [readMessage] \<and>
      ObjectId_new ''65b000000000000000000001'' = Inr ''65b000000000000000000001'' \<and>
      find (\<lambda>m. c_id m = ''65b000000000000000000001'') [readMessage] = Some readMessage \<and>
      isRead readMessage"
    by (simp add: seededStore_def ObjectId_new_def isHexDigit_def toLowerHex_def readMessage_def)
  have t: "testimonialsCollection seededStore = Some [approvedTestimonial] \<and>
      ObjectId_new ''65c000000000000000000001'' = Inr ''65c000000000000000000001'' \<and>
      find (\<lambda>t. t_id t = ''65c000000000000000000001'') [approvedTestimonial]
        = Some approvedTestimonial \<and>
      isApproved approvedTestimonial"
    by (simp add: seededStore_def ObjectId_new_def isHexDigit_def toLowerHex_def
          approvedTestimonial_def)
  from c t
    repeated_flag_update_reports_404
      [where st = seededStore and id' = "''65b000000000000000000001''"
         and oid = "''65b000000000000000000001''" and msgs = "[readMessage]"
         and m = readMessage]
    repeated_flag_update_reports_404
      [where st = seededStore and id' = "''65c000000000000000000001''"
         and oid = "''65c000000000000000000001''" and ts = "[approvedTestimonial]"
         and t = approvedTestimonial]
  show ?thesis by blast
qed

section \<open>The life of a testimonial\<close>

lemma updateOne_collection:
  "snd (snd (updateOne sel upd coll)) = replaceFirst sel upd coll"
  by (induction coll) (auto split: prod.splits)

lemma filter_replaceFirst_other:
  assumes "\<And>d. sel d \<Longrightarrow> \<not> P d" and "\<And>d. sel d \<Longrightarrow> \<not> P (upd d)"
  shows "filter P (replaceFirst sel upd coll) = filter P coll"
  using assms by (induction coll) auto

lemma filter_replaceFirst_same:
  assumes "\<And>d. P (upd d) = P d"
  shows "filter P (replaceFirst P upd coll) =
    (case filter P coll of [] \<Rightarrow> [] | d # ds \<Rightarrow> upd d # ds)"
  using assms by (induction coll) auto

lemma createTestimonial_result:
  assumes "createTestimonial testimonial now newId st = Inr (t, st1)"
  shows "\<exists>coll. testimonialsCollection st = Some coll \<and> newId \<notin> set (map t_id coll) \<and>
           t = InsertTestimonial.extend testimonial (Testimonial.fields now False newId) \<and>
           st1 = st\<lparr>testimonialsCollection := Some (coll @ [t])\<rparr>"
  using assms
  by (auto simp: createTestimonial_def Let_def split: option.splits if_splits)

lemma created_fields:
  "t = InsertTestimonial.extend testimonial (Testimonial.fields now False newId) \<Longrightarrow>
   isApproved t = False \<and> t_id t = newId \<and> t_createdAt t = now \<and>
   InsertTestimonial.truncate t = InsertTestimonial.truncate testimonial"
  by (simp add: InsertTestimonial.defs Testimonial.defs)

lemma call_keeps_invariant:
  assumes "testimonialsCollection s = Some c"
    and "filter (\<lambda>x. t_id x = newId) c = [t\<lparr>isApproved := a\<rparr>]"
    and "t_id t = newId"
  shows "\<exists>c'. testimonialsCollection (testimonialCall s call) = Some c' \<and>
     filter (\<lambda>x. t_id x = newId) c' =
       [t\<lparr>isApproved := a \<or> (\<exists>id'. call = ApproveTestimonial id' \<and> ObjectId_new id' = Inr newId)\<rparr>]"
proof (cases call)
  case (CreateTestimonial ins now' id2)
  have mem: "newId \<in> set (map t_id c)"
  proof -
    have "t\<lparr>isApproved := a\<rparr> \<in> set (filter (\<lambda>x. t_id x = newId) c)"
      unfolding assms(2) by simp
    then have "t\<lparr>isApproved := a\<rparr> \<in> set c" by simp
    then have "t_id (t\<lparr>isApproved := a\<rparr>) \<in> t_id ` set c" by (rule imageI)
    then show ?thesis using assms(3) by simp
  qed
  show ?thesis
  proof (cases "id2 \<in> set (map t_id c)")
    case True
    then show ?thesis using CreateTestimonial assms
      by (simp add: createTestimonial_def)
  next
    case False
    with mem have "id2 \<noteq> newId" by auto
    then show ?thesis using CreateTestimonial assms False
      by (simp add: createTestimonial_def Let_def InsertTestimonial.defs Testimonial.defs)
  qed
next
  case (ApproveTestimonial id')
  show ?thesis
  proof (cases "ObjectId_new id'")
    case (Inl e)
    then show ?thesis using ApproveTestimonial assms
      by (simp add: approveTestimonial_def)
  next
    case (Inr oid)
    obtain m n c' where u: "updateOne (\<lambda>x. t_id x = oid) (\<lambda>x. x\<lparr>isApproved := True\<rparr>) c = (m, n, c')"
      by (metis prod_cases3)
    then have c': "c' = replaceFirst (\<lambda>x. t_id x = oid) (\<lambda>x. x\<lparr>isApproved := True\<rparr>) c"
      using updateOne_collection [of "\<lambda>x. t_id x = oid" "\<lambda>x. x\<lparr>isApproved := True\<rparr>" c] by simp
    have st: "testimonialsCollection (testimonialCall s call) = Some c'"
      using ApproveTestimonial Inr u assms(1) by (simp add: approveTestimonial_def)
    show ?thesis
    proof (cases "oid = newId")
      case True
      have "filter (\<lambda>x. t_id x = newId) c' = [t\<lparr>isApproved := True\<rparr>]"
        unfolding c' True
        by (subst filter_replaceFirst_same) (simp_all add: assms(2))
      then show ?thesis using st ApproveTestimonial Inr True by simp
    next
      case False
      have "filter (\<lambda>x. t_id x = newId) c' = filter (\<lambda>x. t_id x = newId) c"
        unfolding c' by (rule filter_replaceFirst_other) (use False in auto)
      then show ?thesis using st ApproveTestimonial Inr False assms(2) by simp
    qed
  qed
qed

lemma calls_keep_invariant:
  assumes "testimonialsCollection s = Some c"
    and "filter (\<lambda>x. t_id x = newId) c = [t]"
    and "t_id t = newId" and "isApproved t = False"
  shows "\<exists>c'. testimonialsCollection (testimonialCalls calls s) = Some c' \<and>
     filter (\<lambda>x. t_id x = newId) c' =
       [t\<lparr>isApproved := (\<exists>id'. ApproveTestimonial id' \<in> set calls \<and> ObjectId_new id' = Inr newId)\<rparr>]"
proof (induction calls rule: rev_induct)
  case Nil
  have "t\<lparr>isApproved := False\<rparr> = t" using assms(4) by simp
  then show ?case using assms by (simp add: testimonialCalls_def)
next
  case (snoc call calls)
  then obtain c' where 1: "testimonialsCollection (testimonialCalls calls s) = Some c'"
    and 2: "filter (\<lambda>x. t_id x = newId) c' =
       [t\<lparr>isApproved := (\<exists>id'. ApproveTestimonial id' \<in> set calls \<and> ObjectId_new id' = Inr newId)\<rparr>]"
    by blast
  have step: "testimonialCalls (calls @ [call]) s = testimonialCall (testimonialCalls calls s) call"
    by (simp add: testimonialCalls_def)
  have eq: "((\<exists>id'. ApproveTestimonial id' \<in> set calls \<and> ObjectId_new id' = Inr newId) \<or>
        (\<exists>id'. call = ApproveTestimonial id' \<and> ObjectId_new id' = Inr newId)) =
      (\<exists>id'. ApproveTestimonial id' \<in> set (calls @ [call]) \<and> ObjectId_new id' = Inr newId)"
    by auto
  show ?case
    using call_keeps_invariant [OF 1 2 assms(3), of call] unfolding step eq .
qed

text \<open>
  Claim C6. A testimonial that \<^verbatim>\<open>createTestimonial\<close> has stored is unapproved whatever
  the argument was, and \<^verbatim>\<open>getApprovedTestimonials\<close> does not return it. After any
  sequence of further calls of the two writing methods, \<^verbatim>\<open>getApprovedTestimonials\<close>
  returns it, with the flag set, exactly when one of the calls was
  \<^verbatim>\<open>approveTestimonial\<close> with its id.
\<close>

theorem testimonial_lifecycle:
  assumes "createTestimonial testimonial now newId st = Inr (t, st1)"
  shows "isApproved t = False \<and>
    (\<exists>r. getApprovedTestimonials st1 = Inr r \<and> t \<notin> set r \<and> newId \<notin> set (map t_id r)) \<and>
    (\<exists>r. getApprovedTestimonials (testimonialCalls calls st1) = Inr r \<and>
       (t\<lparr>isApproved := True\<rparr> \<in> set r \<longleftrightarrow>
          (\<exists>id'. ApproveTestimonial id' \<in> set calls \<and> ObjectId_new id' = Inr newId)) \<and>
       (newId \<in> set (map t_id r) \<longleftrightarrow>
          (\<exists>id'. ApproveTestimonial id' \<in> set calls \<and> ObjectId_new id' = Inr newId)))"
proof -
  from createTestimonial_result [OF assms] obtain coll where
    coll: "testimonialsCollection st = Some coll" and fresh: "newId \<notin> set (map t_id coll)" and
    t: "t = InsertTestimonial.extend testimonial (Testimonial.fields now False newId)" and
    st1: "st1 = st\<lparr>testimonialsCollection := Some (coll @ [t])\<rparr>"
    by blast
  from created_fields [OF t] have una: "isApproved t = False" and tid: "t_id t = newId"
    by simp_all
  have c1: "testimonialsCollection st1 = Some (coll @ [t])" by (simp add: st1)
  have "filter (\<lambda>x. t_id x = newId) coll = []" using fresh by (auto simp: filter_empty_conv)
  then have f1: "filter (\<lambda>x. t_id x = newId) (coll @ [t]) = [t]" using tid by simp
  have inv: "\<exists>c'. testimonialsCollection (testimonialCalls cs st1) = Some c' \<and>
     filter (\<lambda>x. t_id x = newId) c' =
       [t\<lparr>isApproved := (\<exists>id'. ApproveTestimonial id' \<in> set cs \<and> ObjectId_new id' = Inr newId)\<rparr>]"
    for cs
    by (rule calls_keep_invariant [OF c1 f1 tid una])
  have vis: "\<exists>r. getApprovedTestimonials (testimonialCalls cs st1) = Inr r \<and>
       (t\<lparr>isApproved := True\<rparr> \<in> set r \<longleftrightarrow>
          (\<exists>id'. ApproveTestimonial id' \<in> set cs \<and> ObjectId_new id' = Inr newId)) \<and>
       (newId \<in> set (map t_id r) \<longleftrightarrow>
          (\<exists>id'. ApproveTestimonial id' \<in> set cs \<and> ObjectId_new id' = Inr newId))" for cs
  proof -
    let ?A = "\<exists>id'. ApproveTestimonial id' \<in> set cs \<and> ObjectId_new id' = Inr newId"
    from inv [of cs] obtain c' where
      1: "testimonialsCollection (testimonialCalls cs st1) = Some c'" and
      2: "filter (\<lambda>x. t_id x = newId) c' = [t\<lparr>isApproved := ?A\<rparr>]" by blast
    have only: "x \<in> set c' \<and> t_id x = newId \<longleftrightarrow> x = t\<lparr>isApproved := ?A\<rparr>" for x
    proof -
      have "x \<in> set (filter (\<lambda>x. t_id x = newId) c') \<longleftrightarrow> x = t\<lparr>isApproved := ?A\<rparr>"
        unfolding 2 by simp
      then show ?thesis by simp
    qed
    have r: "getApprovedTestimonials (testimonialCalls cs st1) = Inr (filter (\<lambda>t. isApproved t = True) c')"
      using 1 by (simp add: getApprovedTestimonials_def)
    have a: "t\<lparr>isApproved := True\<rparr> \<in> set (filter (\<lambda>t. isApproved t = True) c') \<longleftrightarrow> ?A"
    proof
      assume "t\<lparr>isApproved := True\<rparr> \<in> set (filter (\<lambda>t. isApproved t = True) c')"
      then have "t\<lparr>isApproved := True\<rparr> \<in> set c' \<and> t_id (t\<lparr>isApproved := True\<rparr>) = newId"
        using tid by simp
      then have "t\<lparr>isApproved := True\<rparr> = t\<lparr>isApproved := ?A\<rparr>" using only by blast
      then have "isApproved (t\<lparr>isApproved := True\<rparr>) = isApproved (t\<lparr>isApproved := ?A\<rparr>)"
        by (simp only:)
      then show ?A by simp
    next
      assume A: ?A
      then have "t\<lparr>isApproved := True\<rparr> = t\<lparr>isApproved := ?A\<rparr>" by simp
      then have "t\<lparr>isApproved := True\<rparr> \<in> set c'" using only by blast
      then show "t\<lparr>isApproved := True\<rparr> \<in> set (filter (\<lambda>t. isApproved t = True) c')" by simp
    qed
    have b: "newId \<in> set (map t_id (filter (\<lambda>t. isApproved t = True) c')) \<longleftrightarrow> ?A"
    proof
      assume "newId \<in> set (map t_id (filter (\<lambda>t. isApproved t = True) c'))"
      then obtain x where "x \<in> set c'" "isApproved x" "t_id x = newId" by auto
      then have "x = t\<lparr>isApproved := ?A\<rparr>" using only by blast
      with \<open>isApproved x\<close> show ?A by simp
    next
      assume ?A
      with a have "t\<lparr>isApproved := True\<rparr> \<in> set (filter (\<lambda>t. isApproved t = True) c')" by blast
      then have "t_id (t\<lparr>isApproved := True\<rparr>) \<in> t_id ` set (filter (\<lambda>t. isApproved t = True) c')"
        by (rule imageI)
      then show "newId \<in> set (map t_id (filter (\<lambda>t. isApproved t = True) c'))"
        using tid by simp
    qed
    show ?thesis using r a b by simp
  qed
  have first: "\<exists>r. getApprovedTestimonials st1 = Inr r \<and> t \<notin> set r \<and> newId \<notin> set (map t_id r)"
  proof -
    from vis [of "[]"] obtain r where
      "getApprovedTestimonials st1 = Inr r" "newId \<notin> set (map t_id r)"
      by (auto simp: testimonialCalls_def)
    moreover have "t \<notin> set r"
      using calculation(1) c1 una by (auto simp: getApprovedTestimonials_def)
    ultimately show ?thesis by blast
  qed
  show ?thesis using una first vis [of calls] by blast
qed

text \<open>A testimonial submitted to the seeded store, before and after its approval.\<close>

theorem testimonial_lifecycle_witness:
  "\<exists>t st1.
     createTestimonial newTestimonial 6000 ''65c000000000000000000002'' seededStore
       = Inr (t, st1) \<and>
     isApproved t = False \<and>
     (\<exists>r. getApprovedTestimonials st1 = Inr r \<and> t \<notin> set r) \<and>
     (\<exists>r. getApprovedTestimonials
            (testimonialCalls [ApproveTestimonial ''65c000000000000000000002''] st1) = Inr r \<and>
          t\<lparr>isApproved := True\<rparr> \<in> set r)"
proof -
  obtain t st1 where
    c: "createTestimonial newTestimonial 6000 ''65c000000000000000000002'' seededStore
          = Inr (t, st1)"
    by (simp add: createTestimonial_def seededStore_def approvedTestimonial_def Let_def)
  have "ObjectId_new ''65c000000000000000000002'' = Inr ''65c000000000000000000002''"
    by (simp add: ObjectId_new_def isHexDigit_def toLowerHex_def)
  then have a: "\<exists>id'. ApproveTestimonial id'
        \<in> set [ApproveTestimonial ''65c000000000000000000002''] \<and>
      ObjectId_new id' = Inr ''65c000000000000000000002''"
    by simp
  from testimonial_lifecycle
    [OF c, of "[ApproveTestimonial ''65c000000000000000000002'']"] a c
  show ?thesis by blast
qed

section \<open>Updating a property\<close>

lemma replaceFirst_position:
  "find sel coll = Some d \<Longrightarrow>
   \<exists>i<length coll. coll ! i = d \<and> replaceFirst sel upd coll = coll[i := upd d]"
proof (induction coll)
  case Nil
  then show ?case by simp
next
  case (Cons x xs)
  show ?case
  proof (cases "sel x")
    case True
    with Cons.prems have "x = d" by simp
    with True have "(x # xs) ! 0 = d \<and> replaceFirst sel upd (x # xs) = (x # xs)[0 := upd d]"
      by simp
    then show ?thesis by blast
  next
    case False
    with Cons obtain i where "i < length xs" "xs ! i = d" "replaceFirst sel upd xs = xs[i := upd d]"
      by auto
    with False have "Suc i < length (x # xs) \<and> (x # xs) ! Suc i = d \<and>
        replaceFirst sel upd (x # xs) = (x # xs)[Suc i := upd d]"
      by simp
    then show ?thesis by blast
  qed
qed

lemma find_replaceFirst:
  "find sel coll = Some d \<Longrightarrow> sel (upd d) \<Longrightarrow> find sel (replaceFirst sel upd coll) = Some (upd d)"
  by (induction coll) (auto split: if_splits)

lemma find_Some_sel: "find sel coll = Some d \<Longrightarrow> sel d"
  by (induction coll) (auto split: if_splits)

lemma applySet_keeps: "p_id (applySet u p) = p_id p" "createdAt (applySet u p) = createdAt p"
  by (simp_all add: applySet_def)

lemma applySet_fields:
  "title (applySet u p) = (case u_title u of None \<Rightarrow> title p | Some v \<Rightarrow> v)"
  "description (applySet u p) = (case u_description u of None \<Rightarrow> description p | Some v \<Rightarrow> v)"
  "type' (applySet u p) = (case u_type u of None \<Rightarrow> type' p | Some v \<Rightarrow> v)"
  "price (applySet u p) = (case u_price u of None \<Rightarrow> price p | Some v \<Rightarrow> v)"
  "currency (applySet u p) = (case u_currency u of None \<Rightarrow> currency p | Some v \<Rightarrow> v)"
  "isRental (applySet u p) = (case u_isRental u of None \<Rightarrow> isRental p | Some v \<Rightarrow> v)"
  "rentalPeriod (applySet u p) =
     (case u_rentalPeriod u of None \<Rightarrow> rentalPeriod p | Some v \<Rightarrow> Some v)"
  "city (applySet u p) = (case u_city u of None \<Rightarrow> city p | Some v \<Rightarrow> v)"
  "area (applySet u p) = (case u_area u of None \<Rightarrow> area p | Some v \<Rightarrow> Some v)"
  "neighborhood (applySet u p) =
     (case u_neighborhood u of None \<Rightarrow> neighborhood p | Some v \<Rightarrow> v)"
  "address (applySet u p) = (case u_address u of None \<Rightarrow> address p | Some v \<Rightarrow> v)"
  "bedrooms (applySet u p) = (case u_bedrooms u of None \<Rightarrow> bedrooms p | Some v \<Rightarrow> Some v)"
  "bathrooms (applySet u p) = (case u_bathrooms u of None \<Rightarrow> bathrooms p | Some v \<Rightarrow> Some v)"
  "size' (applySet u p) = (case u_size u of None \<Rightarrow> size' p | Some v \<Rightarrow> v)"
  "features (applySet u p) = (case u_features u of None \<Rightarrow> features p | Some v \<Rightarrow> Some v)"
  "images (applySet u p) = (case u_images u of None \<Rightarrow> images p | Some v \<Rightarrow> v)"
  "status (applySet u p) = (case u_status u of None \<Rightarrow> status p | Some v \<Rightarrow> v)"
  "propertyCode (applySet u p) =
     (case u_propertyCode u of None \<Rightarrow> propertyCode p | Some v \<Rightarrow> v)"
  "latitude (applySet u p) = (case u_latitude u of None \<Rightarrow> latitude p | Some v \<Rightarrow> Some v)"
  "longitude (applySet u p) = (case u_longitude u of None \<Rightarrow> longitude p | Some v \<Rightarrow> Some v)"
  by (simp_all add: applySet_def)

text \<open>
  Claim C7, as stated, fails for an update whose \<^verbatim>\<open>propertyCode\<close> is the code of another
  stored property: the unique index rejects the write, the call fails with a
  duplicate-key error and no field is set.
\<close>

theorem updateProperty_counterexample:
  "updateProperty ''65a000000000000000000002''
     (emptyUpdate\<lparr>u_propertyCode := Some ''SA-12345''\<rparr>) seededStore = Inl DuplicateKey \<and>
   getProperty ''65a000000000000000000002'' seededStore = Inr (Some flat) \<and>
   propertyCode flat = ''SA-12346''"
  by (simp add: updateProperty_def getProperty_def findOneAndUpdate_def seededStore_def
      ObjectId_new_def isHexDigit_def toLowerHex_def applySet_fields applySet_keeps
      emptyUpdate_def villa_def flat_def land_def)

text \<open>An update that carries a code other than the property's own, held by a stored
  property, is rejected whatever else it carries; the store, which only a successful
  call replaces, still holds the property as it was.\<close>

lemma updateProperty_duplicate_code:
  assumes "propertiesCollection st = Some coll"
    and "ObjectId_new id' = Inr oid"
    and "find (\<lambda>p. p_id p = oid) coll = Some p"
    and "u_propertyCode u = Some c"
    and "c \<noteq> propertyCode p" and "c \<in> set (map propertyCode coll)"
  shows "updateProperty id' u st = Inl DuplicateKey"
    and "getProperty id' st = Inr (Some p)"
proof -
  have code: "propertyCode (applySet u p) = c"
    using assms(4) by (simp add: applySet_fields(18))
  have "findOneAndUpdate (\<lambda>p. p_id p = oid) (applySet u) propertyCode coll = Inl DuplicateKey"
    using assms(3,5,6) by (simp add: findOneAndUpdate_def code)
  then show "updateProperty id' u st = Inl DuplicateKey"
    using assms(1,2) by (simp add: updateProperty_def)
  show "getProperty id' st = Inr (Some p)"
    using assms(1,2,3) by (simp add: getProperty_def)
qed

text \<open>
  Claim C7, amended. Take an existing property and a partial update. When the update's
  \<^verbatim>\<open>propertyCode\<close> is absent, is the property's own code, or is a code that no stored
  property has, \<^verbatim>\<open>updateProperty\<close> returns the updated document, in which every field
  present in the update has the update's value and every absent field, \<^verbatim>\<open>createdAt\<close>
  and the id have the stored value; the document is written in place of the old one,
  every other document is left as it was, and a later read by id returns it. When the
  update's \<^verbatim>\<open>propertyCode\<close> is a code other than the property's own that a stored
  property has, the call fails with a duplicate-key error and changes nothing: the store
  still holds the property as it was.
\<close>

theorem updateProperty_merges:
  assumes "propertiesCollection st = Some coll"
    and "ObjectId_new id' = Inr oid"
    and "find (\<lambda>p. p_id p = oid) coll = Some p"
  shows "((case u_propertyCode u of None \<Rightarrow> True
          | Some c \<Rightarrow> c = propertyCode p \<or> c \<notin> set (map propertyCode coll)) \<longrightarrow>
    (\<exists>p' coll'.
     updateProperty id' u st = Inr (Some p', st\<lparr>propertiesCollection := Some coll'\<rparr>) \<and>
     (\<exists>i<length coll. coll ! i = p \<and> coll' = coll[i := p']) \<and>
     getProperty id' (st\<lparr>propertiesCollection := Some coll'\<rparr>) = Inr (Some p') \<and>
     title p' = (case u_title u of None \<Rightarrow> title p | Some v \<Rightarrow> v) \<and>
     description p' = (case u_description u of None \<Rightarrow> description p | Some v \<Rightarrow> v) \<and>
     type' p' = (case u_type u of None \<Rightarrow> type' p | Some v \<Rightarrow> v) \<and>
     price p' = (case u_price u of None \<Rightarrow> price p | Some v \<Rightarrow> v) \<and>
     currency p' = (case u_currency u of None \<Rightarrow> currency p | Some v \<Rightarrow> v) \<and>
     isRental p' = (case u_isRental u of None \<Rightarrow> isRental p | Some v \<Rightarrow> v) \<and>
     rentalPeriod p' = (case u_rentalPeriod u of None \<Rightarrow> rentalPeriod p | Some v \<Rightarrow> Some v) \<and>
     city p' = (case u_city u of None \<Rightarrow> city p | Some v \<Rightarrow> v) \<and>
     area p' = (case u_area u of None \<Rightarrow> area p | Some v \<Rightarrow> Some v) \<and>
     neighborhood p' = (case u_neighborhood u of None \<Rightarrow> neighborhood p | Some v \<Rightarrow> v) \<and>
     address p' = (case u_address u of None \<Rightarrow> address p | Some v \<Rightarrow> v) \<and>
     bedrooms p' = (case u_bedrooms u of None \<Rightarrow> bedrooms p | Some v \<Rightarrow> Some v) \<and>
     bathrooms p' = (case u_bathrooms u of None \<Rightarrow> bathrooms p | Some v \<Rightarrow> Some v) \<and>
     size' p' = (case u_size u of None \<Rightarrow> size' p | Some v \<Rightarrow> v) \<and>
     features p' = (case u_features u of None \<Rightarrow> features p | Some v \<Rightarrow> Some v) \<and>
     images p' = (case u_images u of None \<Rightarrow> images p | Some v \<Rightarrow> v) \<and>
     status p' = (case u_status u of None \<Rightarrow> status p | Some v \<Rightarrow> v) \<and>
     propertyCode p' = (case u_propertyCode u of None \<Rightarrow> propertyCode p | Some v \<Rightarrow> v) \<and>
     latitude p' = (case u_latitude u of None \<Rightarrow> latitude p | Some v \<Rightarrow> Some v) \<and>
     longitude p' = (case u_longitude u of None \<Rightarrow> longitude p | Some v \<Rightarrow> Some v) \<and>
     createdAt p' = createdAt p \<and> p_id p' = p_id p)) \<and>
   ((case u_propertyCode u of None \<Rightarrow> False
     | Some c \<Rightarrow> c \<noteq> propertyCode p \<and> c \<in> set (map propertyCode coll)) \<longrightarrow>
    updateProperty id' u st = Inl DuplicateKey \<and> getProperty id' st = Inr (Some p))"
proof (intro conjI impI)
  assume free: "case u_propertyCode u of None \<Rightarrow> True
          | Some c \<Rightarrow> c = propertyCode p \<or> c \<notin> set (map propertyCode coll)"
  let ?sel = "\<lambda>p. p_id p = oid"
  let ?p' = "applySet u p"
  let ?coll' = "replaceFirst ?sel (applySet u) coll"
  have sel: "p_id p = oid" using find_Some_sel [OF assms(3)] .
  have nodup: "\<not> (propertyCode ?p' \<noteq> propertyCode p \<and> propertyCode ?p' \<in> set (map propertyCode coll))"
    using free by (cases "u_propertyCode u") (simp_all add: applySet_fields(18))
  have fau: "findOneAndUpdate ?sel (applySet u) propertyCode coll = Inr (Some ?p', ?coll')"
    using assms(3) nodup by (simp add: findOneAndUpdate_def)
  have upd: "updateProperty id' u st = Inr (Some ?p', st\<lparr>propertiesCollection := Some ?coll'\<rparr>)"
    using assms(1,2) fau by (simp add: updateProperty_def)
  have pos: "\<exists>i<length coll. coll ! i = p \<and> ?coll' = coll[i := ?p']"
    by (rule replaceFirst_position [OF assms(3)])
  have "find ?sel ?coll' = Some ?p'"
    by (rule find_replaceFirst [OF assms(3)]) (simp add: applySet_keeps sel)
  then have get: "getProperty id' (st\<lparr>propertiesCollection := Some ?coll'\<rparr>) = Inr (Some ?p')"
    using assms(2) by (simp add: getProperty_def)
  show "\<exists>p' coll'.
     updateProperty id' u st = Inr (Some p', st\<lparr>propertiesCollection := Some coll'\<rparr>) \<and>
     (\<exists>i<length coll. coll ! i = p \<and> coll' = coll[i := p']) \<and>
     getProperty id' (st\<lparr>propertiesCollection := Some coll'\<rparr>) = Inr (Some p') \<and>
     title p' = (case u_title u of None \<Rightarrow> title p | Some v \<Rightarrow> v) \<and>
     description p' = (case u_description u of None \<Rightarrow> description p | Some v \<Rightarrow> v) \<and>
     type' p' = (case u_type u of None \<Rightarrow> type' p | Some v \<Rightarrow> v) \<and>
     price p' = (case u_price u of None \<Rightarrow> price p | Some v \<Rightarrow> v) \<and>
     currency p' = (case u_currency u of None \<Rightarrow> currency p | Some v \<Rightarrow> v) \<and>
     isRental p' = (case u_isRental u of None \<Rightarrow> isRental p | Some v \<Rightarrow> v) \<and>
     rentalPeriod p' = (case u_rentalPeriod u of None \<Rightarrow> rentalPeriod p | Some v \<Rightarrow> Some v) \<and>
     city p' = (case u_city u of None \<Rightarrow> city p | Some v \<Rightarrow> v) \<and>
     area p' = (case u_area u of None \<Rightarrow> area p | Some v \<Rightarrow> Some v) \<and>
     neighborhood p' = (case u_neighborhood u of None \<Rightarrow> neighborhood p | Some v \<Rightarrow> v) \<and>
     address p' = (case u_address u of None \<Rightarrow> address p | Some v \<Rightarrow> v) \<and>
     bedrooms p' = (case u_bedrooms u of None \<Rightarrow> bedrooms p | Some v \<Rightarrow> Some v) \<and>
     bathrooms p' = (case u_bathrooms u of None \<Rightarrow> bathrooms p | Some v \<Rightarrow> Some v) \<and>
     size' p' = (case u_size u of None \<Rightarrow> size' p | Some v \<Rightarrow> v) \<and>
     features p' = (case u_features u of None \<Rightarrow> features p | Some v \<Rightarrow> Some v) \<and>
     images p' = (case u_images u of None \<Rightarrow> images p | Some v \<Rightarrow> v) \<and>
     status p' = (case u_status u of None \<Rightarrow> status p | Some v \<Rightarrow> v) \<and>
     propertyCode p' = (case u_propertyCode u of None \<Rightarrow> propertyCode p | Some v \<Rightarrow> v) \<and>
     latitude p' = (case u_latitude u of None \<Rightarrow> latitude p | Some v \<Rightarrow> Some v) \<and>
     longitude p' = (case u_longitude u of None \<Rightarrow> longitude p | Some v \<Rightarrow> Some v) \<and>
     createdAt p' = createdAt p \<and> p_id p' = p_id p"
    apply (rule exI [of _ ?p'])
    apply (rule exI [of _ ?coll'])
    apply (intro conjI)
    apply (rule upd)
    apply (rule pos)
    apply (rule get)
    apply (rule applySet_fields applySet_keeps)+
    done
next
  assume taken: "case u_propertyCode u of None \<Rightarrow> False
     | Some c \<Rightarrow> c \<noteq> propertyCode p \<and> c \<in> set (map propertyCode coll)"
  then obtain c where c: "u_propertyCode u = Some c" "c \<noteq> propertyCode p"
      "c \<in> set (map propertyCode coll)"
    by (cases "u_propertyCode u") simp_all
  show "updateProperty id' u st = Inl DuplicateKey"
    by (rule updateProperty_duplicate_code(1) [OF assms c])
next
  show "getProperty id' st = Inr (Some p)"
    using assms by (simp add: getProperty_def)
qed

text \<open>On the seeded store: changing only the price of the apartment, and giving the
  apartment the code of the land.\<close>

theorem updateProperty_merges_witness:
  "propertiesCollection seededStore = Some [villa, flat, land] \<and>
   ObjectId_new ''65a000000000000000000002'' = Inr ''65a000000000000000000002'' \<and>
   find (\<lambda>p. p_id p = ''65a000000000000000000002'') [villa, flat, land] = Some flat \<and>
   (\<exists>p' coll'.
      updateProperty ''65a000000000000000000002'' (emptyUpdate\<lparr>u_price := Some 90000\<rparr>)
        seededStore = Inr (Some p', seededStore\<lparr>propertiesCollection := Some coll'\<rparr>) \<and>
      price p' = 90000 \<and> title p' = title flat \<and> bedrooms p' = bedrooms flat \<and>
      propertyCode p' = propertyCode flat \<and> createdAt p' = createdAt flat) \<and>
   updateProperty ''65a000000000000000000002''
     (emptyUpdate\<lparr>u_price := Some 90000, u_propertyCode := Some ''SA-12347''\<rparr>) seededStore
     = Inl DuplicateKey \<and>
   getProperty ''65a000000000000000000002'' seededStore = Inr (Some flat)"
proof -
  have h1: "propertiesCollection seededStore = Some [villa, flat, land]"
    by (simp add: seededStore_def)
  have h2: "ObjectId_new ''65a000000000000000000002'' = Inr ''65a000000000000000000002''"
    by (simp add: ObjectId_new_def isHexDigit_def toLowerHex_def)
  have h3: "find (\<lambda>p. p_id p = ''65a000000000000000000002'') [villa, flat, land] = Some flat"
    by (simp add: villa_def flat_def land_def)
  have free: "case u_propertyCode (emptyUpdate\<lparr>u_price := Some 90000\<rparr>) of None \<Rightarrow> True
         | Some c \<Rightarrow> c = propertyCode flat \<or> c \<notin> set (map propertyCode [villa, flat, land])"
    by (simp add: emptyUpdate_def)
  have taken: "case u_propertyCode
           (emptyUpdate\<lparr>u_price := Some 90000, u_propertyCode := Some ''SA-12347''\<rparr>) of
         None \<Rightarrow> False
       | Some c \<Rightarrow> c \<noteq> propertyCode flat \<and> c \<in> set (map propertyCode [villa, flat, land])"
    by (simp add: emptyUpdate_def villa_def flat_def land_def)
  from updateProperty_merges [OF h1 h2 h3, of "emptyUpdate\<lparr>u_price := Some 90000\<rparr>"] free
  have "\<exists>p' coll'.
      updateProperty ''65a000000000000000000002'' (emptyUpdate\<lparr>u_price := Some 90000\<rparr>)
        seededStore = Inr (Some p', seededStore\<lparr>propertiesCollection := Some coll'\<rparr>) \<and>
      price p' = 90000 \<and> title p' = title flat \<and> bedrooms p' = bedrooms flat \<and>
      propertyCode p' = propertyCode flat \<and> createdAt p' = createdAt flat"
    by (simp add: emptyUpdate_def) blast
  moreover from updateProperty_merges
    [OF h1 h2 h3, of "emptyUpdate\<lparr>u_price := Some 90000, u_propertyCode := Some ''SA-12347''\<rparr>"]
    taken
  have "updateProperty ''65a000000000000000000002''
     (emptyUpdate\<lparr>u_price := Some 90000, u_propertyCode := Some ''SA-12347''\<rparr>) seededStore
     = Inl DuplicateKey \<and>
   getProperty ''65a000000000000000000002'' seededStore = Inr (Some flat)"
    by blast
  ultimately show ?thesis using h1 h2 h3 by blast
qed

section \<open>Defaults of the schemas\<close>

lemma lookupKey_append:
  "lookupKey (kv @ [(k, v)]) k' = (if k' = k then Some v else lookupKey kv k')"
  by (simp add: lookupKey_def)

lemma issues_simps: "issues (Inl is) = is" "issues (Inr v) = []"
  by (simp_all add: issues_def)

lemma default_absent: "z_default d schema k None = Inr d"
  by (simp add: z_default_def)

lemma default_explicit:
  "z_default ''SAR'' z_string k (Some (JStr ''SAR'')) = Inr ''SAR''"
  "z_default ''available'' z_string k (Some (JStr ''available'')) = Inr ''available''"
  "z_default ''user'' z_string k (Some (JStr ''user'')) = Inr ''user''"
  "z_default False z_boolean k (Some (JBool False)) = Inr False"
  by (simp_all add: z_default_def z_string_def z_boolean_def)

lemma insertUserSchema_parse_Inr:
  assumes "insertUserSchema_parse wellFormed (JObj kv) = Inr u"
  shows "role u = projr (z_default ''user'' z_string ''role'' (lookupKey kv ''role''))"
  using assms unfolding insertUserSchema_parse_def Let_def json.case
  by (clarsimp split: if_splits)

lemma insertPropertySchema_parse_Inr:
  assumes "insertPropertySchema_parse (JObj kv) = Inr p"
  shows "currency p = projr (z_default ''SAR'' z_string ''currency'' (lookupKey kv ''currency''))"
    and "isRental p = projr (z_default False z_boolean ''isRental'' (lookupKey kv ''isRental''))"
    and "status p = projr (z_default ''available'' z_string ''status'' (lookupKey kv ''status''))"
    and "propertyCode p = projr (z_string ''propertyCode'' (lookupKey kv ''propertyCode''))"
  using assms unfolding insertPropertySchema_parse_def Let_def json.case
  by (clarsimp split: if_splits)+

lemma parse_role_default:
  "lookupKey kv ''role'' = None \<Longrightarrow>
   insertUserSchema_parse wellFormed (JObj (kv @ [(''role'', JStr ''user'')])) =
   insertUserSchema_parse wellFormed (JObj kv)"
  unfolding insertUserSchema_parse_def json.case lookupKey_append Let_def
  by (simp only: list.inject char.inject simp_thms if_False if_True default_explicit default_absent)

lemma parse_currency_default:
  "lookupKey kv ''currency'' = None \<Longrightarrow>
   insertPropertySchema_parse (JObj (kv @ [(''currency'', JStr ''SAR'')])) =
   insertPropertySchema_parse (JObj kv)"
  unfolding insertPropertySchema_parse_def json.case lookupKey_append Let_def
  by (simp only: list.inject char.inject simp_thms if_False if_True default_explicit default_absent)

lemma parse_isRental_default:
  "lookupKey kv ''isRental'' = None \<Longrightarrow>
   insertPropertySchema_parse (JObj (kv @ [(''isRental'', JBool False)])) =
   insertPropertySchema_parse (JObj kv)"
  unfolding insertPropertySchema_parse_def json.case lookupKey_append Let_def
  by (simp only: list.inject char.inject simp_thms if_False if_True default_explicit default_absent)

lemma parse_status_default:
  "lookupKey kv ''status'' = None \<Longrightarrow>
   insertPropertySchema_parse (JObj (kv @ [(''status'', JStr ''available'')])) =
   insertPropertySchema_parse (JObj kv)"
  unfolding insertPropertySchema_parse_def json.case lookupKey_append Let_def
  by (simp only: list.inject char.inject simp_thms if_False if_True default_explicit default_absent)

text \<open>
  Claim C8. When the body omits \<^verbatim>\<open>currency\<close>, \<^verbatim>\<open>isRental\<close> or \<^verbatim>\<open>status\<close>,
  \<^verbatim>\<open>insertPropertySchema\<close> validates it exactly as it validates the same body with
  \<^verbatim>\<open>"SAR"\<close>, \<^verbatim>\<open>false\<close> or \<^verbatim>\<open>"available"\<close> written out, and the normalized value it
  returns has that value in the field; likewise \<^verbatim>\<open>insertUserSchema\<close> and
  \<^verbatim>\<open>role = "user"\<close>.
\<close>

theorem schema_defaults_applied:
  "(lookupKey kv ''currency'' = None \<longrightarrow>
      insertPropertySchema_parse (JObj kv) =
        insertPropertySchema_parse (JObj (kv @ [(''currency'', JStr ''SAR'')])) \<and>
      (\<forall>p. insertPropertySchema_parse (JObj kv) = Inr p \<longrightarrow> currency p = ''SAR'')) \<and>
   (lookupKey kv ''isRental'' = None \<longrightarrow>
      insertPropertySchema_parse (JObj kv) =
        insertPropertySchema_parse (JObj (kv @ [(''isRental'', JBool False)])) \<and>
      (\<forall>p. insertPropertySchema_parse (JObj kv) = Inr p \<longrightarrow> isRental p = False)) \<and>
   (lookupKey kv ''status'' = None \<longrightarrow>
      insertPropertySchema_parse (JObj kv) =
        insertPropertySchema_parse (JObj (kv @ [(''status'', JStr ''available'')])) \<and>
      (\<forall>p. insertPropertySchema_parse (JObj kv) = Inr p \<longrightarrow> status p = ''available'')) \<and>
   (lookupKey kv ''role'' = None \<longrightarrow>
      insertUserSchema_parse wellFormed (JObj kv) =
        insertUserSchema_parse wellFormed (JObj (kv @ [(''role'', JStr ''user'')])) \<and>
      (\<forall>u. insertUserSchema_parse wellFormed (JObj kv) = Inr u \<longrightarrow> role u = ''user''))"
proof (intro conjI impI allI)
  assume "lookupKey kv ''currency'' = None"
  then show "insertPropertySchema_parse (JObj kv) =
        insertPropertySchema_parse (JObj (kv @ [(''currency'', JStr ''SAR'')]))"
    by (simp only: parse_currency_default)
next
  fix p assume "lookupKey kv ''currency'' = None" "insertPropertySchema_parse (JObj kv) = Inr p"
  then show "currency p = ''SAR''"
    using insertPropertySchema_parse_Inr(1) [of kv p] by (simp add: default_absent)
next
  assume "lookupKey kv ''isRental'' = None"
  then show "insertPropertySchema_parse (JObj kv) =
        insertPropertySchema_parse (JObj (kv @ [(''isRental'', JBool False)]))"
    by (simp only: parse_isRental_default)
next
  fix p assume "lookupKey kv ''isRental'' = None" "insertPropertySchema_parse (JObj kv) = Inr p"
  then show "isRental p = False"
    using insertPropertySchema_parse_Inr(2) [of kv p] by (simp add: default_absent)
next
  assume "lookupKey kv ''status'' = None"
  then show "insertPropertySchema_parse (JObj kv) =
        insertPropertySchema_parse (JObj (kv @ [(''status'', JStr ''available'')]))"
    by (simp only: parse_status_default)
next
  fix p assume "lookupKey kv ''status'' = None" "insertPropertySchema_parse (JObj kv) = Inr p"
  then show "status p = ''available''"
    using insertPropertySchema_parse_Inr(3) [of kv p] by (simp add: default_absent)
next
  assume "lookupKey kv ''role'' = None"
  then show "insertUserSchema_parse wellFormed (JObj kv) =
        insertUserSchema_parse wellFormed (JObj (kv @ [(''role'', JStr ''user'')]))"
    by (simp only: parse_role_default)
next
  fix u assume "lookupKey kv ''role'' = None" "insertUserSchema_parse wellFormed (JObj kv) = Inr u"
  then show "role u = ''user''"
    using insertUserSchema_parse_Inr [of wellFormed kv u] by (simp add: default_absent)
qed

lemmas schema_eval = insertPropertySchema_parse_def insertUserSchema_parse_def lookupKey_def
  z_string_def z_string_min_def z_string_email_def z_number_def z_number_min0_def
  z_boolean_def z_array_string_def z_array_string_min1_def z_optional_def z_default_def
  issues_simps Let_def

lemma parse_body_ok:
  "insertPropertySchema_parse (JObj (bodyWithoutCode @ [(''propertyCode'', JStr ''SA-20001'')])) =
    Inr \<lparr> title = ''Garden house'', description = ''Quiet street'', type' = ''villa'',
      price = 950000, currency = ''SAR'', isRental = False, rentalPeriod = None,
      city = ''Riyadh'', area = None, neighborhood = ''Al Yasmin'', address = ''Street 12'',
      bedrooms = None, bathrooms = None, size' = 300, features = None,
      images = [''house.jpg''], status = ''available'', propertyCode = ''SA-20001'',
      latitude = None, longitude = None \<rparr>"
  by (simp add: schema_eval bodyWithoutCode_def)

lemma parse_user_ok:
  "insertUserSchema_parse (\<lambda>s. CHR ''@'' \<in> set s) (JObj userBody) =
    Inr \<lparr> username = ''salem'', password = ''secret1'', usr_name = ''Salem'',
      role = ''user'', usr_email = ''salem@example.com'', usr_phone = None \<rparr>"
  by (simp add: schema_eval userBody_def)

text \<open>A property body and a user body that leave all four fields out are accepted, and
  the normalized values carry the defaults.\<close>

theorem schema_defaults_applied_witness:
  "lookupKey (bodyWithoutCode @ [(''propertyCode'', JStr ''SA-20001'')]) ''currency'' = None \<and>
   lookupKey (bodyWithoutCode @ [(''propertyCode'', JStr ''SA-20001'')]) ''isRental'' = None \<and>
   lookupKey (bodyWithoutCode @ [(''propertyCode'', JStr ''SA-20001'')]) ''status'' = None \<and>
   lookupKey userBody ''role'' = None \<and>
   (\<exists>p. insertPropertySchema_parse
          (JObj (bodyWithoutCode @ [(''propertyCode'', JStr ''SA-20001'')])) = Inr p \<and>
        currency p = ''SAR'' \<and> isRental p = False \<and> status p = ''available'') \<and>
   (\<exists>u. insertUserSchema_parse (\<lambda>s. CHR ''@'' \<in> set s) (JObj userBody) = Inr u \<and>
        role u = ''user'')"
proof -
  let ?body = "bodyWithoutCode @ [(''propertyCode'', JStr ''SA-20001'')]"
  have k: "lookupKey ?body ''currency'' = None" "lookupKey ?body ''isRental'' = None"
    "lookupKey ?body ''status'' = None"
    by (simp_all add: lookupKey_def bodyWithoutCode_def)
  have r: "lookupKey userBody ''role'' = None"
    by (simp add: lookupKey_def userBody_def)
  obtain p where p: "insertPropertySchema_parse (JObj ?body) = Inr p"
    using parse_body_ok by blast
  obtain u where u: "insertUserSchema_parse (\<lambda>s. CHR ''@'' \<in> set s) (JObj userBody) = Inr u"
    using parse_user_ok by blast
  from schema_defaults_applied [of ?body "\<lambda>s. CHR ''@'' \<in> set s"] k p
  have "currency p = ''SAR'' \<and> isRental p = False \<and> status p = ''available''"
    by blast
  moreover from schema_defaults_applied [of userBody "\<lambda>s. CHR ''@'' \<in> set s"] r u
  have "role u = ''user''" by blast
  ultimately show ?thesis using k r p u by blast
qed

section \<open>Creating a property without a code\<close>

lemma parse_without_propertyCode:
  assumes "lookupKey kv ''propertyCode'' = None"
  shows "\<exists>errors. insertPropertySchema_parse (JObj kv) = Inl errors \<and>
           invalid_type ''propertyCode'' \<in> set errors"
proof -
  have "issues (z_string ''propertyCode'' (lookupKey kv ''propertyCode'')) =
      [invalid_type ''propertyCode'']"
    using assms by (simp add: z_string_def issues_simps)
  then show ?thesis
    unfolding insertPropertySchema_parse_def json.case Let_def
    by simp
qed

text \<open>
  Claim C5 does not hold of the code: \<^verbatim>\<open>propertyCode\<close> is a required string of
  \<^verbatim>\<open>insertPropertySchema\<close>, so a body that does not supply it is rejected by validation,
  with an issue for that key, before the handler reaches the statement that generates a
  code; the response is 400 and nothing is stored.
\<close>

theorem create_without_propertyCode_rejected:
  assumes "lookupKey kv ''propertyCode'' = None"
  shows "(\<exists>errors. insertPropertySchema_parse (JObj kv) = Inl errors \<and>
            invalid_type ''propertyCode'' \<in> set errors) \<and>
         createPropertyHandler (JObj kv) generated now newId st = (400, st)"
proof -
  from parse_without_propertyCode [OF assms] obtain errors where
    e: "insertPropertySchema_parse (JObj kv) = Inl errors"
       "invalid_type ''propertyCode'' \<in> set errors" by blast
  then have "createPropertyHandler (JObj kv) generated now newId st = (400, st)"
    by (simp add: createPropertyHandler_def)
  with e show ?thesis by blast
qed

text \<open>A complete body without \<^verbatim>\<open>propertyCode\<close>, sent to the seeded store.\<close>

theorem create_without_propertyCode_rejected_witness:
  "lookupKey bodyWithoutCode ''propertyCode'' = None \<and>
   createPropertyHandler (JObj bodyWithoutCode) 55000 7000 ''65a000000000000000000004''
     seededStore = (400, seededStore)"
proof -
  have h: "lookupKey bodyWithoutCode ''propertyCode'' = None"
    by (simp add: lookupKey_def bodyWithoutCode_def)
  from create_without_propertyCode_rejected [OF h] h show ?thesis by blast
qed

text \<open>The generating statement is reached only when the code is supplied as the empty
  string; the stored code is then \<^verbatim>\<open>SA-\<close> and the generated number.\<close>

lemma decimal_55000: "decimal 55000 = ''55000''"
  by (simp add: decimal.simps)

lemma generatedCode_55000: "generatedCode 55000 = ''SA-55000''"
  by (simp add: generatedCode_def decimal_55000)

lemma create_with_empty_code:
  "\<exists>st'. createPropertyHandler (JObj (bodyWithoutCode @ [(''propertyCode'', JStr [])]))
      55000 7000 ''65a000000000000000000004'' seededStore = (201, st') \<and>
    (\<exists>p. getProperty ''65a000000000000000000004'' st' = Inr (Some p) \<and>
         propertyCode p = ''SA-55000'')"
  by (simp add: createPropertyHandler_def schema_eval bodyWithoutCode_def generatedCode_55000
      createProperty_def getProperty_def seededStore_def ObjectId_new_def isHexDigit_def
      toLowerHex_def InsertProperty.defs Property.defs villa_def flat_def land_def)

end
